theory Spec2Isabelle
  imports Complex_Main
begin

section \<open>Conventions of the embedding\<close>

text \<open>
  The development embeds \<^verbatim>\<open>src/src/spectrum.py\<close> and \<^verbatim>\<open>src/src/utils.py\<close>
  of the spectral matching tool, with the settings of \<^verbatim>\<open>src/config.py\<close> as
  explicit arguments.

  \<^item> A Python \<^verbatim>\<open>float\<close> that a loader reads from a file or from the settings is a
    \<^typ>\<open>real\<close>, and so are the abscissae. The values of the array \<^verbatim>\<open>y\<close> and what
    the analysis computes from them are of the type \<open>fnum\<close>, which adds the infinities
    and NaN, since the analysis divides without a test for zero. Rounding, overflow and
    the sign of zero have no counterpart here. A Python \<^verbatim>\<open>int\<close> is an \<^typ>\<open>int\<close>.
  \<^item> Text is a \<^typ>\<open>string\<close> of ASCII characters; a file is the list of its lines.
  \<^item> An exception is a value of the type \<open>error\<close>, and a function that can raise
    returns \<open>error + 'a\<close> with \<open>Inl\<close> for the exception.
  \<^item> The built-ins \<^verbatim>\<open>float()\<close> and \<^verbatim>\<open>int()\<close> are the arguments \<open>pf\<close> and \<open>pint\<close>
    of the two loaders (\<open>None\<close> where the built-in raises \<^verbatim>\<open>ValueError\<close>), and
    \<^verbatim>\<open>numpy.linalg.lstsq\<close> is the argument \<open>lstsq\<close> of the analysis, so every theorem
    holds whatever these library functions compute. The readers \<open>dec_float\<close> and
    \<open>dec_int\<close> of plain decimal literals instantiate them for concrete files.
\<close>

datatype error =
    ValueError string
  | TypeError string
  | AttributeError string
  | IndexError string
  | LinAlgError string
  | SystemExit string

section \<open>Floating-point values that need not be finite\<close>

text \<open>
  A value of the array \<^verbatim>\<open>y\<close> and of everything the analysis computes from it: a real
  number, one of the two infinities, or NaN. The operations follow IEEE 754 as numpy
  applies it, without raising: a quotient by zero is infinite, or NaN for \<open>0 / 0\<close>; NaN
  propagates through the arithmetic; and every comparison with NaN is false.
\<close>

datatype fnum = Fin real | PInf | NInf | NaN

fun fneg :: "fnum \<Rightarrow> fnum" where
  "fneg (Fin a) = Fin (- a)"
| "fneg PInf = NInf"
| "fneg NInf = PInf"
| "fneg NaN = NaN"

fun fadd :: "fnum \<Rightarrow> fnum \<Rightarrow> fnum" where
  "fadd NaN b = NaN"
| "fadd a NaN = NaN"
| "fadd (Fin a) (Fin b) = Fin (a + b)"
| "fadd PInf NInf = NaN"
| "fadd NInf PInf = NaN"
| "fadd PInf b = PInf"
| "fadd a PInf = PInf"
| "fadd NInf b = NInf"
| "fadd a NInf = NInf"

definition fsub :: "fnum \<Rightarrow> fnum \<Rightarrow> fnum" where
  "fsub a b = fadd a (fneg b)"

text \<open>The sign of a value that is not NaN, and the infinity of a sign (NaN for no sign).\<close>

fun fsign :: "fnum \<Rightarrow> int" where
  "fsign (Fin a) = (if 0 < a then 1 else if a < 0 then - 1 else 0)"
| "fsign PInf = 1"
| "fsign NInf = - 1"
| "fsign NaN = 0"

definition finf :: "int \<Rightarrow> fnum" where
  "finf k = (if 0 < k then PInf else if k < 0 then NInf else NaN)"

fun fmul :: "fnum \<Rightarrow> fnum \<Rightarrow> fnum" where
  "fmul NaN b = NaN"
| "fmul a NaN = NaN"
| "fmul (Fin a) (Fin b) = Fin (a * b)"
| "fmul a b = finf (fsign a * fsign b)"

fun fdiv :: "fnum \<Rightarrow> fnum \<Rightarrow> fnum" where
  "fdiv NaN b = NaN"
| "fdiv a NaN = NaN"
| "fdiv (Fin a) (Fin b) = (if b \<noteq> 0 then Fin (a / b) else finf (fsign (Fin a)))"
| "fdiv (Fin a) b = Fin 0"
| "fdiv a (Fin b) = (if b < 0 then fneg a else a)"
| "fdiv a b = NaN"

fun flt :: "fnum \<Rightarrow> fnum \<Rightarrow> bool" where
  "flt NaN b = False"
| "flt a NaN = False"
| "flt (Fin a) (Fin b) = (a < b)"
| "flt a NInf = False"
| "flt NInf b = True"
| "flt PInf b = False"
| "flt a PInf = True"

definition fle :: "fnum \<Rightarrow> fnum \<Rightarrow> bool" where
  "fle a b = (a \<noteq> NaN \<and> b \<noteq> NaN \<and> \<not> flt b a)"

text \<open>\<^verbatim>\<open>np.maximum\<close>, which returns NaN when either argument is NaN.\<close>

definition fmaximum :: "fnum \<Rightarrow> fnum \<Rightarrow> fnum" where
  "fmaximum a b = (if a = NaN \<or> b = NaN then NaN else if flt a b then b else a)"

fun flog10 :: "fnum \<Rightarrow> fnum" where
  "flog10 (Fin a) = (if 0 < a then Fin (log 10 a) else if a = 0 then NInf else NaN)"
| "flog10 PInf = PInf"
| "flog10 NInf = NaN"
| "flog10 NaN = NaN"

text \<open>\<^verbatim>\<open>np.sum\<close> and \<^verbatim>\<open>np.mean\<close>; the mean of an empty array is \<open>0 / 0\<close>, that is NaN.\<close>

definition fsum :: "fnum list \<Rightarrow> fnum" where
  "fsum a = foldl fadd (Fin 0) a"

definition fmean :: "fnum list \<Rightarrow> fnum" where
  "fmean a = fdiv (fsum a) (Fin (real (length a)))"

section \<open>Text primitives of the Python runtime\<close>

definition isspace :: "char \<Rightarrow> bool" where
  "isspace c = (let n = (of_char c :: nat) in (9 \<le> n \<and> n \<le> 13) \<or> (28 \<le> n \<and> n \<le> 32))"

definition isdigit :: "char \<Rightarrow> bool" where
  "isdigit c = (let n = (of_char c :: nat) in 48 \<le> n \<and> n \<le> 57)"

text \<open>\<^verbatim>\<open>str.strip()\<close>: leading and trailing whitespace removed.\<close>

definition strip :: "string \<Rightarrow> string" where
  "strip s = rev (dropWhile isspace (rev (dropWhile isspace s)))"

text \<open>\<^verbatim>\<open>str.upper()\<close> on ASCII text.\<close>

definition upper_char :: "char \<Rightarrow> char" where
  "upper_char c = (let n = (of_char c :: nat) in if 97 \<le> n \<and> n \<le> 122 then char_of (n - 32) else c)"

definition upper :: "string \<Rightarrow> string" where
  "upper s = map upper_char s"

text \<open>
  \<^verbatim>\<open>str.split(sep)\<close> for a one-character separator: every separator ends a field, and
  empty fields are kept, so the result is never empty.
\<close>

primrec split_on :: "(char \<Rightarrow> bool) \<Rightarrow> string \<Rightarrow> string list" where
  "split_on p [] = [[]]"
| "split_on p (c # cs) =
     (if p c then [] # split_on p cs
      else (case split_on p cs of [] \<Rightarrow> [[c]] | w # ws \<Rightarrow> (c # w) # ws))"

text \<open>\<^verbatim>\<open>str.split()\<close> without a separator: the maximal runs of non-whitespace.\<close>

definition split_ws :: "string \<Rightarrow> string list" where
  "split_ws s = filter (\<lambda>w. w \<noteq> []) (split_on isspace s)"

text \<open>
  \<^verbatim>\<open>s.split("=", 1)\<close> on a string that holds the separator: the text before the first
  \<^verbatim>\<open>=\<close> and the text after it.
\<close>

definition split_eq1 :: "string \<Rightarrow> string \<times> string" where
  "split_eq1 s = (takeWhile (\<lambda>c. c \<noteq> CHR ''='') s, drop 1 (dropWhile (\<lambda>c. c \<noteq> CHR ''='') s))"

text \<open>\<^verbatim>\<open>os.path.basename\<close> and the root part of \<^verbatim>\<open>os.path.splitext\<close> (POSIX).\<close>

definition basename :: "string \<Rightarrow> string" where
  "basename p = rev (takeWhile (\<lambda>c. c \<noteq> CHR ''/'') (rev p))"

definition splitext_root :: "string \<Rightarrow> string" where
  "splitext_root b =
     (let ext = takeWhile (\<lambda>c. c \<noteq> CHR ''.'') (rev b);
          stem = take (length b - length ext - 1) b
      in if CHR ''.'' \<in> set b \<and> (\<exists>c \<in> set stem. c \<noteq> CHR ''.'') then stem else b)"

subsection \<open>Readers of plain decimal literals\<close>

definition digits_val :: "string \<Rightarrow> nat" where
  "digits_val ds = foldl (\<lambda>a c. 10 * a + (of_char c - 48)) 0 ds"

text \<open>
  The literal without its sign: digits, optionally a point and more digits, at least one
  digit in all.
\<close>

definition dec_unsigned :: "string \<Rightarrow> real option" where
  "dec_unsigned u =
     (let ip = takeWhile isdigit u; rest = dropWhile isdigit u
      in case rest of
           [] \<Rightarrow> if ip = [] then None else Some (real (digits_val ip))
         | c # fp \<Rightarrow>
             if c = CHR ''.'' \<and> list_all isdigit fp \<and> (ip \<noteq> [] \<or> fp \<noteq> [])
             then Some (real (digits_val (ip @ fp)) / 10 ^ length fp)
             else None)"

definition dec_float :: "string \<Rightarrow> real option" where
  "dec_float s =
     (case strip s of
        [] \<Rightarrow> None
      | c # r \<Rightarrow>
          if c = CHR ''-'' then map_option uminus (dec_unsigned r)
          else if c = CHR ''+'' then dec_unsigned r
          else dec_unsigned (c # r))"

definition dec_nat :: "string \<Rightarrow> int option" where
  "dec_nat u = (if u \<noteq> [] \<and> list_all isdigit u then Some (int (digits_val u)) else None)"

definition dec_int :: "string \<Rightarrow> int option" where
  "dec_int s =
     (case strip s of
        [] \<Rightarrow> None
      | c # r \<Rightarrow>
          if c = CHR ''-'' then map_option uminus (dec_nat r)
          else if c = CHR ''+'' then dec_nat r
          else dec_nat (c # r))"

section \<open>The spectrum record\<close>

text \<open>
  The dataclass \<^verbatim>\<open>Spectrum\<close>. Its arrays \<^verbatim>\<open>x\<close> and \<^verbatim>\<open>y\<close> are the fields \<open>x_data\<close>
  and \<open>y_data\<close>; every field starts as \<^verbatim>\<open>None\<close>, the arrays empty.
\<close>

record Spectrum =
  title :: "string option"
  data_type :: "string option"
  cas_registry_no :: "string option"
  molform :: "string option"
  state :: "string option"
  xunits :: "string option"
  yunits :: "string option"
  xfactor :: "real option"
  yfactor :: "real option"
  deltax :: "real option"
  firstx :: "real option"
  lastx :: "real option"
  firsty :: "real option"
  maxx :: "real option"
  minx :: "real option"
  maxy :: "real option"
  miny :: "real option"
  npoints :: "int option"
  x_data :: "real list"
  y_data :: "fnum list"

definition new_spectrum :: Spectrum where
  "new_spectrum =
     \<lparr> title = None, data_type = None, cas_registry_no = None, molform = None,
       state = None, xunits = None, yunits = None, xfactor = None, yfactor = None,
       deltax = None, firstx = None, lastx = None, firsty = None, maxx = None,
       minx = None, maxy = None, miny = None, npoints = None, x_data = [], y_data = [] \<rparr>"

text \<open>
  The values \<^verbatim>\<open>getattr\<close> can return, and Python's truth value of each. numpy refuses
  the truth value of an array unless it has exactly one element.
\<close>

datatype pyval = VNone | VStr string | VFloat real | VInt int | VArr "fnum list"

definition of_str :: "string option \<Rightarrow> pyval" where
  "of_str v = (case v of None \<Rightarrow> VNone | Some t \<Rightarrow> VStr t)"

definition of_float :: "real option \<Rightarrow> pyval" where
  "of_float v = (case v of None \<Rightarrow> VNone | Some r \<Rightarrow> VFloat r)"

definition of_int_opt :: "int option \<Rightarrow> pyval" where
  "of_int_opt v = (case v of None \<Rightarrow> VNone | Some i \<Rightarrow> VInt i)"

definition getattr :: "Spectrum \<Rightarrow> string \<Rightarrow> error + pyval" where
  "getattr s key =
     (if key = ''title'' then Inr (of_str (title s))
      else if key = ''data_type'' then Inr (of_str (data_type s))
      else if key = ''cas_registry_no'' then Inr (of_str (cas_registry_no s))
      else if key = ''molform'' then Inr (of_str (molform s))
      else if key = ''state'' then Inr (of_str (state s))
      else if key = ''xunits'' then Inr (of_str (xunits s))
      else if key = ''yunits'' then Inr (of_str (yunits s))
      else if key = ''xfactor'' then Inr (of_float (xfactor s))
      else if key = ''yfactor'' then Inr (of_float (yfactor s))
      else if key = ''deltax'' then Inr (of_float (deltax s))
      else if key = ''firstx'' then Inr (of_float (firstx s))
      else if key = ''lastx'' then Inr (of_float (lastx s))
      else if key = ''firsty'' then Inr (of_float (firsty s))
      else if key = ''maxx'' then Inr (of_float (maxx s))
      else if key = ''minx'' then Inr (of_float (minx s))
      else if key = ''maxy'' then Inr (of_float (maxy s))
      else if key = ''miny'' then Inr (of_float (miny s))
      else if key = ''npoints'' then Inr (of_int_opt (npoints s))
      else if key = ''x'' then Inr (VArr (map Fin (x_data s)))
      else if key = ''y'' then Inr (VArr (y_data s))
      else Inl (AttributeError key))"

fun truthy :: "pyval \<Rightarrow> error + bool" where
  "truthy VNone = Inr False"
| "truthy (VStr t) = Inr (t \<noteq> [])"
| "truthy (VFloat r) = Inr (r \<noteq> 0)"
| "truthy (VInt i) = Inr (i \<noteq> 0)"
| "truthy (VArr []) = Inl (ValueError ''The truth value of an empty array is ambiguous'')"
| "truthy (VArr [v]) = Inr (v \<noteq> Fin 0)"
| "truthy (VArr (v # w # vs)) =
     Inl (ValueError ''The truth value of an array with more than one element is ambiguous'')"

section \<open>The settings of \<^verbatim>\<open>config.py\<close>\<close>

text \<open>
  The module-level settings the loaders and the analysis read, as one record that every
  function takes as its argument. The plot settings and the two directory names are left
  out: the directories are represented by the files found in them.
\<close>

record config =
  baseline_correction_use :: bool
  baseline_correction_fraction :: real
  baseline_correction_minpoints :: int
  ref_multiplier :: "real list option"
  selected_ref_names :: "string list option"
  clamp_negative_multipliers :: bool
  required_fields_in_jdx :: "string list"
  header_size_in_csv :: int

text \<open>The values the repository ships.\<close>

definition config_py :: config where
  "config_py =
     \<lparr> baseline_correction_use = True,
       baseline_correction_fraction = 20 / 100,
       baseline_correction_minpoints = 50,
       ref_multiplier = None,
       selected_ref_names = None,
       clamp_negative_multipliers = True,
       required_fields_in_jdx =
         [''title'', ''molform'', ''yunits'', ''firstx'', ''deltax'', ''npoints''],
       header_size_in_csv = 1 \<rparr>"

section \<open>The structured format: \<^verbatim>\<open>Spectrum.from_jdx\<close>\<close>

text \<open>The dictionary \<^verbatim>\<open>keymap\<close> from the labels of the file to the attributes.\<close>

definition keymap :: "(string \<times> string) list" where
  "keymap =
     [(''TITLE'', ''title''), (''DATA TYPE'', ''data_type''),
      (''CAS REGISTRY NO'', ''cas_registry_no''), (''MOLFORM'', ''molform''),
      (''STATE'', ''state''), (''XUNITS'', ''xunits''), (''YUNITS'', ''yunits''),
      (''XFACTOR'', ''xfactor''), (''YFACTOR'', ''yfactor''), (''DELTAX'', ''deltax''),
      (''FIRSTX'', ''firstx''), (''LASTX'', ''lastx''), (''FIRSTY'', ''firsty''),
      (''MAXX'', ''maxx''), (''MINX'', ''minx''), (''MAXY'', ''maxy''),
      (''MINY'', ''miny''), (''NPOINTS'', ''npoints'')]"

text \<open>
  What \<^verbatim>\<open>get_type_hints(cls)[attr]\<close> is compared with: \<^verbatim>\<open>Optional[float]\<close>,
  \<^verbatim>\<open>Optional[int]\<close>, or anything else (the strings).
\<close>

datatype hint = HFloat | HInt | HOther

definition type_hint :: "string \<Rightarrow> hint" where
  "type_hint a =
     (if a \<in> set [''xfactor'', ''yfactor'', ''deltax'', ''firstx'', ''lastx'', ''firsty'',
                   ''maxx'', ''minx'', ''maxy'', ''miny''] then HFloat
      else if a = ''npoints'' then HInt
      else HOther)"

text \<open>\<^verbatim>\<open>setattr\<close> at an attribute of each kind.\<close>

definition setattr_str :: "Spectrum \<Rightarrow> string \<Rightarrow> string \<Rightarrow> Spectrum" where
  "setattr_str s a v =
     (if a = ''title'' then s\<lparr>title := Some v\<rparr>
      else if a = ''data_type'' then s\<lparr>data_type := Some v\<rparr>
      else if a = ''cas_registry_no'' then s\<lparr>cas_registry_no := Some v\<rparr>
      else if a = ''molform'' then s\<lparr>molform := Some v\<rparr>
      else if a = ''state'' then s\<lparr>state := Some v\<rparr>
      else if a = ''xunits'' then s\<lparr>xunits := Some v\<rparr>
      else if a = ''yunits'' then s\<lparr>yunits := Some v\<rparr>
      else s)"

definition setattr_float :: "Spectrum \<Rightarrow> string \<Rightarrow> real \<Rightarrow> Spectrum" where
  "setattr_float s a v =
     (if a = ''xfactor'' then s\<lparr>xfactor := Some v\<rparr>
      else if a = ''yfactor'' then s\<lparr>yfactor := Some v\<rparr>
      else if a = ''deltax'' then s\<lparr>deltax := Some v\<rparr>
      else if a = ''firstx'' then s\<lparr>firstx := Some v\<rparr>
      else if a = ''lastx'' then s\<lparr>lastx := Some v\<rparr>
      else if a = ''firsty'' then s\<lparr>firsty := Some v\<rparr>
      else if a = ''maxx'' then s\<lparr>maxx := Some v\<rparr>
      else if a = ''minx'' then s\<lparr>minx := Some v\<rparr>
      else if a = ''maxy'' then s\<lparr>maxy := Some v\<rparr>
      else if a = ''miny'' then s\<lparr>miny := Some v\<rparr>
      else s)"

definition setattr_int :: "Spectrum \<Rightarrow> string \<Rightarrow> int \<Rightarrow> Spectrum" where
  "setattr_int s a v = (if a = ''npoints'' then s\<lparr>npoints := Some v\<rparr> else s)"

text \<open>The text in single quotes, as the messages of \<^verbatim>\<open>float()\<close> and \<^verbatim>\<open>int()\<close> show it.\<close>

definition quoted :: "string \<Rightarrow> string" where
  "quoted v = [CHR 0x27] @ v @ [CHR 0x27]"

text \<open>
  The header branch of the loop body: a line that starts with \<^verbatim>\<open>##\<close> and holds
  \<^verbatim>\<open>=\<close> sets the attribute of its label, when the label is one of \<open>keymap\<close>.
\<close>

definition jdx_header :: "(string \<Rightarrow> real option) \<Rightarrow> (string \<Rightarrow> int option) \<Rightarrow>
    Spectrum \<Rightarrow> string \<Rightarrow> error + Spectrum" where
  "jdx_header pf pint s line =
     (if take 2 line = ''##'' \<and> CHR ''='' \<in> set line then
        (let (label0, val0) = split_eq1 (drop 2 line);
             label = upper (strip label0);
             val = strip val0
         in case map_of keymap label of
              None \<Rightarrow> Inr s
            | Some a \<Rightarrow>
                (case type_hint a of
                   HFloat \<Rightarrow>
                     (case pf val of
                        None \<Rightarrow> Inl (ValueError (''could not convert string to float: '' @ quoted val))
                      | Some r \<Rightarrow> Inr (setattr_float s a r))
                 | HInt \<Rightarrow>
                     (case pint val of
                        None \<Rightarrow>
                          Inl (ValueError (''invalid literal for int() with base 10: '' @ quoted val))
                      | Some i \<Rightarrow> Inr (setattr_int s a i))
                 | HOther \<Rightarrow> Inr (setattr_str s a val)))
      else Inr s)"

text \<open>
  The data branch: a line that starts with a digit is split at whitespace, its first
  token is dropped and the others are appended to \<^verbatim>\<open>y_vals\<close>.
\<close>

definition jdx_data :: "(string \<Rightarrow> real option) \<Rightarrow> real list \<Rightarrow> string \<Rightarrow> error + real list" where
  "jdx_data pf y_vals line =
     (if line \<noteq> [] \<and> isdigit (hd line) then
        (case those (map pf (tl (split_ws line))) of
           None \<Rightarrow>
             Inl (ValueError (''could not convert string to float: '' @
                    quoted (hd (filter (\<lambda>v. pf v = None) (tl (split_ws line))))))
         | Some ys \<Rightarrow> Inr (y_vals @ ys))
      else Inr y_vals)"

definition jdx_line :: "(string \<Rightarrow> real option) \<Rightarrow> (string \<Rightarrow> int option) \<Rightarrow>
    Spectrum \<times> real list \<Rightarrow> string \<Rightarrow> error + Spectrum \<times> real list" where
  "jdx_line pf pint acc raw =
     (let line = strip raw
      in case jdx_header pf pint (fst acc) line of
           Inl e \<Rightarrow> Inl e
         | Inr s \<Rightarrow>
             (case jdx_data pf (snd acc) line of
                Inl e \<Rightarrow> Inl e
              | Inr ys \<Rightarrow> Inr (s, ys)))"

fun jdx_lines :: "(string \<Rightarrow> real option) \<Rightarrow> (string \<Rightarrow> int option) \<Rightarrow>
    Spectrum \<times> real list \<Rightarrow> string list \<Rightarrow> error + Spectrum \<times> real list" where
  "jdx_lines pf pint acc [] = Inr acc"
| "jdx_lines pf pint acc (l # ls) =
     (case jdx_line pf pint acc l of
        Inl e \<Rightarrow> Inl e
      | Inr acc' \<Rightarrow> jdx_lines pf pint acc' ls)"

text \<open>
  The loop over \<^verbatim>\<open>required\<close>: the first key whose attribute is not truthy raises
  \<^verbatim>\<open>ValueError(f"Could not parse {key} in {path}")\<close>.
\<close>

fun check_required :: "Spectrum \<Rightarrow> string \<Rightarrow> string list \<Rightarrow> error + unit" where
  "check_required s path [] = Inr ()"
| "check_required s path (key # keys) =
     (case getattr s key of
        Inl e \<Rightarrow> Inl e
      | Inr v \<Rightarrow>
          (case truthy v of
             Inl e \<Rightarrow> Inl e
           | Inr t \<Rightarrow>
               if \<not> t then Inl (ValueError (''Could not parse '' @ key @ '' in '' @ path))
               else check_required s path keys))"

text \<open>\<^verbatim>\<open>np.arange(n, dtype=float) * deltax + firstx\<close>; the range is empty for \<open>n \<le> 0\<close>.\<close>

definition gen_x :: "int \<Rightarrow> real \<Rightarrow> real \<Rightarrow> real list" where
  "gen_x n d f = map (\<lambda>i. real i * d + f) [0..<nat n]"

definition str_of_opt :: "string option \<Rightarrow> string" where
  "str_of_opt v = (case v of None \<Rightarrow> ''None'' | Some t \<Rightarrow> t)"

text \<open>Everything after the loop over the lines, from \<^verbatim>\<open>s.y = np.array(y_vals, float)\<close> on.\<close>

definition jdx_finish :: "string list \<Rightarrow> string \<Rightarrow> Spectrum \<times> real list \<Rightarrow> error + Spectrum" where
  "jdx_finish required path acc =
     (let s1 = (fst acc)\<lparr>y_data := map Fin (snd acc)\<rparr>
      in case check_required s1 path required of
           Inl e \<Rightarrow> Inl e
         | Inr u \<Rightarrow>
             (case molform s1 of
                None \<Rightarrow> Inl (AttributeError ''replace'')
              | Some m \<Rightarrow>
                  (let s2 = s1\<lparr>molform := Some (filter (\<lambda>c. c \<noteq> CHR '' '') m)\<rparr>
                   in case npoints s2 of
                        None \<Rightarrow> Inl (TypeError ''arange'')
                      | Some n \<Rightarrow>
                          (case deltax s2 of
                             None \<Rightarrow> Inl (TypeError ''unsupported operand type(s) for *'')
                           | Some d \<Rightarrow>
                               (case firstx s2 of
                                  None \<Rightarrow> Inl (TypeError ''unsupported operand type(s) for +'')
                                | Some f \<Rightarrow>
                                    (let s3 = s2\<lparr>x_data := gen_x n d f\<rparr>
                                     in if x_data s3 = [] then
                                          Inl (ValueError (''Missing array field 'x' in '' @ path))
                                        else if y_data s3 = [] then
                                          Inl (ValueError (''Missing array field 'y' in '' @ path))
                                        else if length (x_data s3) \<noteq> length (y_data s3) then
                                          Inl (ValueError (''The number of x-values and y-values in ''
                                                 @ str_of_opt (title s3) @ '' does not match.''))
                                        else
                                          (case yfactor s3 of
                                             None \<Rightarrow> Inr s3
                                           | Some k \<Rightarrow>
                                               if k \<noteq> 1 then
                                                 Inr (s3\<lparr>y_data := map (\<lambda>v. fmul v (Fin k)) (y_data s3)\<rparr>)
                                               else Inr s3)))))))"

definition from_jdx :: "config \<Rightarrow> (string \<Rightarrow> real option) \<Rightarrow> (string \<Rightarrow> int option) \<Rightarrow>
    string \<Rightarrow> string list \<Rightarrow> error + Spectrum" where
  "from_jdx cfg pf pint path file =
     (case jdx_lines pf pint (new_spectrum, []) file of
        Inl e \<Rightarrow> Inl e
      | Inr acc \<Rightarrow> jdx_finish (required_fields_in_jdx cfg) path acc)"

section \<open>The tabular format: \<^verbatim>\<open>Spectrum.from_csv\<close>\<close>

text \<open>
  One pass of the loop over the data rows. A blank line is skipped; a line with fewer than
  two comma-separated fields, or whose first or second field \<^verbatim>\<open>float()\<close> refuses, raises
  with the stripped line in the message; fields after the second are not looked at.
\<close>

definition csv_row :: "(string \<Rightarrow> real option) \<Rightarrow> real list \<times> real list \<Rightarrow> string \<Rightarrow>
    error + real list \<times> real list" where
  "csv_row pf acc raw =
     (let line = strip raw
      in if line = [] then Inr acc
         else
           (let parts = split_on (\<lambda>c. c = CHR '','') line
            in if length parts < 2 then
                 Inl (ValueError (''Invalid CSV row (expected 2 columns): '' @ line))
               else
                 (case pf (parts ! 0) of
                    None \<Rightarrow> Inl (ValueError (''Non-numeric value in row: '' @ line))
                  | Some xv \<Rightarrow>
                      (case pf (parts ! 1) of
                         None \<Rightarrow> Inl (ValueError (''Non-numeric value in row: '' @ line))
                       | Some yv \<Rightarrow> Inr (fst acc @ [xv], snd acc @ [yv])))))"

fun csv_rows :: "(string \<Rightarrow> real option) \<Rightarrow> real list \<times> real list \<Rightarrow> string list \<Rightarrow>
    error + real list \<times> real list" where
  "csv_rows pf acc [] = Inr acc"
| "csv_rows pf acc (l # ls) =
     (case csv_row pf acc l of
        Inl e \<Rightarrow> Inl e
      | Inr acc' \<Rightarrow> csv_rows pf acc' ls)"

text \<open>The built-ins \<^verbatim>\<open>max\<close> and \<^verbatim>\<open>min\<close> on a list; both raise on the empty list.\<close>

definition py_max :: "real list \<Rightarrow> error + real" where
  "py_max vs =
     (case vs of
        [] \<Rightarrow> Inl (ValueError ''max() arg is an empty sequence'')
      | v # ws \<Rightarrow> Inr (foldl (\<lambda>m w. if w > m then w else m) v ws))"

definition py_min :: "real list \<Rightarrow> error + real" where
  "py_min vs =
     (case vs of
        [] \<Rightarrow> Inl (ValueError ''min() arg is an empty sequence'')
      | v # ws \<Rightarrow> Inr (foldl (\<lambda>m w. if w < m then w else m) v ws))"

text \<open>Indexing a list with a constant index that is not negative.\<close>

definition py_index :: "real list \<Rightarrow> nat \<Rightarrow> error + real" where
  "py_index vs i = (if i < length vs then Inr (vs ! i) else Inl (IndexError ''list index out of range''))"

text \<open>Python's truth value of an optional string argument.\<close>

definition str_truthy :: "string option \<Rightarrow> bool" where
  "str_truthy v = (case v of None \<Rightarrow> False | Some t \<Rightarrow> t \<noteq> [])"

text \<open>
  Everything after the loop, from \<^verbatim>\<open># Assign fields\<close> on, in the order of the source:
  the title and the formula, then \<^verbatim>\<open>max\<close> and \<^verbatim>\<open>min\<close> of both lists, \<^verbatim>\<open>x_vals[0]\<close>,
  \<^verbatim>\<open>x_vals[-1]\<close>, \<^verbatim>\<open>y_vals[1]\<close>, the point count and the two units.
\<close>

definition csv_finish :: "string \<Rightarrow> string option \<Rightarrow> string option \<Rightarrow>
    real list \<times> real list \<Rightarrow> error + Spectrum" where
  "csv_finish path name mf acc =
     (let x_vals = fst acc; y_vals = snd acc;
          s1 = new_spectrum\<lparr>x_data := x_vals, y_data := map Fin y_vals\<rparr>;
          s2 = (if str_truthy name then s1\<lparr>title := name\<rparr>
                else s1\<lparr>title := Some (splitext_root (basename path))\<rparr>);
          s3 = (if str_truthy mf then s2\<lparr>molform := mf\<rparr> else s2)
      in case py_max x_vals of Inl e \<Rightarrow> Inl e | Inr mxx \<Rightarrow>
         (case py_min x_vals of Inl e \<Rightarrow> Inl e | Inr mnx \<Rightarrow>
         (case py_max y_vals of Inl e \<Rightarrow> Inl e | Inr mxy \<Rightarrow>
         (case py_min y_vals of Inl e \<Rightarrow> Inl e | Inr mny \<Rightarrow>
         (case py_index x_vals 0 of Inl e \<Rightarrow> Inl e | Inr fx \<Rightarrow>
         (case py_index x_vals (length x_vals - 1) of Inl e \<Rightarrow> Inl e | Inr lx \<Rightarrow>
         (case py_index y_vals 1 of Inl e \<Rightarrow> Inl e | Inr fy \<Rightarrow>
            Inr (s3\<lparr>maxx := Some mxx, minx := Some mnx, maxy := Some mxy, miny := Some mny,
                     firstx := Some fx, lastx := Some lx, firsty := Some fy,
                     npoints := Some (int (length x_vals)),
                     xunits := Some ''1/cm'', yunits := Some ''ABSORBANCE''\<rparr>))))))))"

text \<open>
  The first \<open>header_size\<close> lines are skipped (none when the number is not positive, and
  \<^verbatim>\<open>next(f, None)\<close> does not raise when the file is shorter).
\<close>

definition from_csv :: "(string \<Rightarrow> real option) \<Rightarrow> string \<Rightarrow> string option \<Rightarrow> string option \<Rightarrow>
    int \<Rightarrow> string list \<Rightarrow> error + Spectrum" where
  "from_csv pf path name mf header_size file =
     (case csv_rows pf ([], []) (drop (nat header_size) file) of
        Inl e \<Rightarrow> Inl e
      | Inr acc \<Rightarrow> csv_finish path name mf acc)"

section \<open>Absorbance: \<^verbatim>\<open>get_y_absorbance\<close> and \<^verbatim>\<open>convert_to_absorbance\<close>\<close>

definition epsilon :: real where
  "epsilon = 1 / 10 ^ 12"

text \<open>\<^verbatim>\<open>-np.log10(np.maximum(y, epsilon))\<close>, elementwise.\<close>

definition to_absorbance :: "fnum list \<Rightarrow> fnum list" where
  "to_absorbance ys = map (\<lambda>v. fneg (flog10 (fmaximum v (Fin epsilon)))) ys"

definition get_y_absorbance :: "Spectrum \<Rightarrow> error + fnum list" where
  "get_y_absorbance s =
     (case yunits s of
        None \<Rightarrow> Inl (ValueError (''yunits is not set in '' @ str_of_opt (title s)))
      | Some u \<Rightarrow>
          if upper (strip u) = ''ABSORBANCE'' then Inr (y_data s)
          else if upper (strip u) = ''TRANSMITTANCE'' then Inr (to_absorbance (y_data s))
          else Inl (ValueError (''Unsupported Y unit type: '' @ u @ '' in '' @ str_of_opt (title s))))"

text \<open>
  The method mutates the spectrum and returns nothing: the model returns the spectrum
  after the call. After the two tests the body of the source ends, so with any other unit
  the call returns with the spectrum as it was.
\<close>

definition convert_to_absorbance :: "Spectrum \<Rightarrow> error + Spectrum" where
  "convert_to_absorbance s =
     (case yunits s of
        None \<Rightarrow> Inl (ValueError (''yunits is not set in '' @ str_of_opt (title s)))
      | Some u \<Rightarrow>
          if upper (strip u) = ''ABSORBANCE'' then Inr s
          else if upper (strip u) = ''TRANSMITTANCE'' then
            Inr (s\<lparr>y_data := to_absorbance (y_data s), yunits := Some ''ABSORBANCE''\<rparr>)
          else Inr s)"

section \<open>Grid interpolation: \<^verbatim>\<open>interpolate_to\<close>\<close>

text \<open>
  \<^verbatim>\<open>numpy.interp(x, xp, fp, left, right)\<close> at one point \<open>v\<close>, as numpy computes it. With
  one sample point the value is \<open>left\<close> below it, \<open>right\<close> above it and the sample on it.
  Otherwise a point above the last element of \<open>xp\<close> gets \<open>right\<close>, a point below the
  first element gets \<open>left\<close> (both tests read the two ends of the array only, whatever its
  order), and any other point is interpolated in the interval \<open>interval_index\<close> finds:
  from the left end of the interval, from its right end when that gives NaN, and the
  common value of both ends when that gives NaN too.

  numpy finds that interval by bisection; \<open>interval_index\<close> counts the elements after the
  first that are at most \<open>v\<close>, which is the same interval whenever \<open>xp\<close> is ascending.
\<close>

definition interval_index :: "real \<Rightarrow> real list \<Rightarrow> nat" where
  "interval_index v xp = length (takeWhile (\<lambda>a. a \<le> v) (tl xp))"

definition interp_segment :: "real list \<Rightarrow> fnum list \<Rightarrow> real \<Rightarrow> nat \<Rightarrow> fnum" where
  "interp_segment xp fp v j =
     (let slope = fdiv (fsub (fp ! (j + 1)) (fp ! j)) (Fin (xp ! (j + 1) - xp ! j));
          r1 = fadd (fmul slope (Fin (v - xp ! j))) (fp ! j);
          r2 = fadd (fmul slope (Fin (v - xp ! (j + 1)))) (fp ! (j + 1))
      in if r1 \<noteq> NaN then r1
         else if r2 = NaN \<and> fp ! j = fp ! (j + 1) \<and> fp ! j \<noteq> NaN then fp ! j
         else r2)"

definition interp1 :: "real list \<Rightarrow> fnum list \<Rightarrow> fnum \<Rightarrow> fnum \<Rightarrow> real \<Rightarrow> fnum" where
  "interp1 xp fp left right v =
     (if length xp = 1 then
        (if v < xp ! 0 then left else if v > xp ! 0 then right else fp ! 0)
      else if v > last xp then right
      else if v < hd xp then left
      else
        (let j = interval_index v xp
         in if j = length xp - 1 then fp ! j
            else if xp ! j = v then fp ! j
            else interp_segment xp fp v j))"

text \<open>The whole call: numpy refuses an empty \<open>xp\<close> and arrays of different lengths.\<close>

definition np_interp :: "real list \<Rightarrow> real list \<Rightarrow> fnum list \<Rightarrow> fnum \<Rightarrow> fnum \<Rightarrow> error + fnum list" where
  "np_interp xs xp fp left right =
     (if xp = [] then Inl (ValueError ''array of sample points is empty'')
      else if length fp \<noteq> length xp then Inl (ValueError ''fp and xp are not of the same length.'')
      else Inr (map (interp1 xp fp left right) xs))"

definition interpolate_to :: "real list \<Rightarrow> Spectrum \<Rightarrow> error + fnum list" where
  "interpolate_to sample_x ref =
     (case get_y_absorbance ref of
        Inl e \<Rightarrow> Inl e
      | Inr fp \<Rightarrow> np_interp sample_x (x_data ref) fp (Fin 0) (Fin 0))"

text \<open>
  The piecewise-linear interpolant through finite samples, as a relation between a point
  and a value: the point lies on a segment between two neighbouring samples with
  different abscissae, in either order, and the value is the one the line through them
  takes; or there is one sample only and the point is on it.
\<close>

definition on_segment :: "real list \<Rightarrow> real list \<Rightarrow> real \<Rightarrow> real \<Rightarrow> nat \<Rightarrow> bool" where
  "on_segment xp fp v r j =
     (min (xp ! j) (xp ! (j + 1)) \<le> v \<and> v \<le> max (xp ! j) (xp ! (j + 1)) \<and>
      xp ! j \<noteq> xp ! (j + 1) \<and>
      r = fp ! j + (fp ! (j + 1) - fp ! j) * (v - xp ! j) / (xp ! (j + 1) - xp ! j))"

definition piecewise_linear :: "real list \<Rightarrow> real list \<Rightarrow> real \<Rightarrow> real \<Rightarrow> bool" where
  "piecewise_linear xp fp v r =
     (list_ex (on_segment xp fp v r) [0..<length xp - 1] \<or>
      (length xp = 1 \<and> v = xp ! 0 \<and> r = fp ! 0))"

section \<open>Baseline correction: \<^verbatim>\<open>correct_linear_baseline\<close>\<close>

text \<open>\<^verbatim>\<open>int(r)\<close> of a float truncates towards zero.\<close>

definition py_trunc :: "real \<Rightarrow> int" where
  "py_trunc r = (if 0 \<le> r then \<lfloor>r\<rfloor> else \<lceil>r\<rceil>)"

text \<open>The slices \<^verbatim>\<open>a[:k]\<close> and \<^verbatim>\<open>a[k:]\<close> for an integer \<open>k\<close> of either sign.\<close>

definition slice_to :: "'a list \<Rightarrow> int \<Rightarrow> 'a list" where
  "slice_to a k = (if 0 \<le> k then take (nat k) a else take (nat (int (length a) + k)) a)"

definition slice_from :: "'a list \<Rightarrow> int \<Rightarrow> 'a list" where
  "slice_from a k = (if 0 \<le> k then drop (nat k) a else drop (nat (int (length a) + k)) a)"

text \<open>
  \<^verbatim>\<open>self.y -= grad * self.x + intercept\<close>: arrays of one length are combined
  elementwise, an \<open>x\<close> of one element is broadcast, and any other pair of lengths raises.
\<close>

definition subtract_line :: "fnum \<Rightarrow> fnum \<Rightarrow> real list \<Rightarrow> fnum list \<Rightarrow> error + fnum list" where
  "subtract_line grad intercept xs ys =
     (if length xs = length ys then
        Inr (map2 (\<lambda>yv xv. fsub yv (fadd (fmul grad (Fin xv)) intercept)) ys xs)
      else if length xs = 1 then
        Inr (map (\<lambda>yv. fsub yv (fadd (fmul grad (Fin (hd xs))) intercept)) ys)
      else Inl (ValueError ''operands could not be broadcast together''))"

text \<open>
  The method, returning the spectrum after the call. Nothing tests whether the first and
  the last abscissa differ: where they are equal the gradient is infinite or NaN, and so
  are the values the method leaves in \<^verbatim>\<open>y\<close>.
\<close>

definition correct_linear_baseline :: "config \<Rightarrow> Spectrum \<Rightarrow> error + Spectrum" where
  "correct_linear_baseline cfg s0 =
     (case convert_to_absorbance s0 of
        Inl e \<Rightarrow> Inl e
      | Inr s \<Rightarrow>
          (case npoints s of
             None \<Rightarrow> Inl (TypeError ''unsupported operand type(s) for *'')
           | Some n \<Rightarrow>
               (let points = max (py_trunc (baseline_correction_fraction cfg * real_of_int n))
                                 (baseline_correction_minpoints cfg)
                in if x_data s = [] then Inl (IndexError ''index 0 is out of bounds'')
                   else
                     (let x1 = hd (x_data s); x2 = last (x_data s)
                      in case get_y_absorbance s of
                           Inl e \<Rightarrow> Inl e
                         | Inr ya \<Rightarrow>
                             (let y1 = fmean (slice_to ya points);
                                  y2 = fmean (slice_from ya (- points));
                                  grad = fdiv (fsub y2 y1) (Fin (x2 - x1));
                                  intercept = fsub y1 (fmul grad (Fin x1))
                              in case subtract_line grad intercept (x_data s) (y_data s) of
                                   Inl e \<Rightarrow> Inl e
                                 | Inr ys \<Rightarrow> Inr (s\<lparr>y_data := ys\<rparr>))))))"

section \<open>The analysis: \<^verbatim>\<open>get_references\<close>, \<^verbatim>\<open>get_samples\<close> and \<^verbatim>\<open>analyze_spectrum\<close>\<close>

text \<open>
  A directory is the list of the files \<^verbatim>\<open>glob.glob\<close> finds in it, each a path with the
  lines of the file, in the order of the listing.
\<close>

type_synonym directory = "(string \<times> string list) list"

text \<open>A loop that calls a function on every element and stops at the first exception.\<close>

fun map_err :: "('a \<Rightarrow> error + 'b) \<Rightarrow> 'a list \<Rightarrow> error + 'b list" where
  "map_err f [] = Inr []"
| "map_err f (a # as) =
     (case f a of
        Inl e \<Rightarrow> Inl e
      | Inr b \<Rightarrow> (case map_err f as of Inl e \<Rightarrow> Inl e | Inr bs \<Rightarrow> Inr (b # bs)))"

definition get_references :: "config \<Rightarrow> (string \<Rightarrow> real option) \<Rightarrow> (string \<Rightarrow> int option) \<Rightarrow>
    directory \<Rightarrow> error + Spectrum list" where
  "get_references cfg pf pint ref_files =
     (if ref_files = [] then Inl (SystemExit ''No references available. Please refer to README'')
      else map_err (\<lambda>f. from_jdx cfg pf pint (fst f) (snd f)) ref_files)"

definition get_samples :: "config \<Rightarrow> (string \<Rightarrow> real option) \<Rightarrow> directory \<Rightarrow> error + Spectrum list" where
  "get_samples cfg pf sample_files =
     (if sample_files = [] then Inl (SystemExit ''No samples available. Please refer to README'')
      else map_err (\<lambda>f. from_csv pf (fst f) None None (header_size_in_csv cfg) (snd f)) sample_files)"

text \<open>
  The test of the manual settings at the head of \<^verbatim>\<open>analyze_spectrum\<close>. It runs only when
  \<^verbatim>\<open>ref_multiplier\<close> is truthy, that is a list with at least one element.
\<close>

definition list_truthy :: "'a list option \<Rightarrow> bool" where
  "list_truthy v = (case v of None \<Rightarrow> False | Some l \<Rightarrow> l \<noteq> [])"

definition names_error :: error where
  "names_error = ValueError ''selected_ref_names must be provided when ref_multiplier is used.''"

definition length_error :: error where
  "length_error = ValueError
     (''selected_ref_names must have the same length as ref_multiplier, '' @
      ''specifying which reference spectrum each multiplier corresponds to.'')"

definition check_multipliers :: "config \<Rightarrow> error + unit" where
  "check_multipliers cfg =
     (if list_truthy (ref_multiplier cfg) then
        (if \<not> list_truthy (selected_ref_names cfg) then Inl names_error
         else if length (the (ref_multiplier cfg)) \<noteq> length (the (selected_ref_names cfg))
         then Inl length_error
         else Inr ())
      else Inr ())"

text \<open>The list comprehension that keeps the selected references.\<close>

definition select_refs :: "config \<Rightarrow> Spectrum list \<Rightarrow> Spectrum list" where
  "select_refs cfg ref_data =
     (if list_truthy (selected_ref_names cfg) then
        filter (\<lambda>r. case molform r of None \<Rightarrow> False
                     | Some m \<Rightarrow> m \<in> set (the (selected_ref_names cfg))) ref_data
      else ref_data)"

text \<open>
  Vectors are lists, and the matrix \<open>A\<close> is the list of its columns, as
  \<^verbatim>\<open>np.column_stack\<close> receives them; every column has the length \<open>n\<close> of the sample's
  grid. \<open>matvec cols m n\<close> is the product \<^verbatim>\<open>A @ m\<close>, which raises unless \<open>m\<close> has one
  entry for each column.
\<close>

definition matvec :: "fnum list list \<Rightarrow> fnum list \<Rightarrow> nat \<Rightarrow> error + fnum list" where
  "matvec cols m n =
     (if length m \<noteq> length cols then Inl (ValueError ''matmul: mismatch in its core dimension'')
      else Inr (foldl (\<lambda>acc cw. map2 fadd acc (map (\<lambda>v. fmul v (snd cw)) (fst cw)))
                  (replicate n (Fin 0)) (zip cols m)))"

text \<open>
  The difference \<^verbatim>\<open>a - b\<close> of two arrays and the update \<^verbatim>\<open>acc += v\<close>, with numpy's
  broadcasting of an array of one element; other arrays of different lengths raise.
\<close>

definition np_sub :: "fnum list \<Rightarrow> fnum list \<Rightarrow> error + fnum list" where
  "np_sub a b =
     (if length a = length b then Inr (map2 fsub a b)
      else if length b = 1 then Inr (map (\<lambda>v. fsub v (hd b)) a)
      else if length a = 1 then Inr (map (\<lambda>v. fsub (hd a) v) b)
      else Inl (ValueError ''operands could not be broadcast together''))"

definition add_inplace :: "fnum list \<Rightarrow> fnum list \<Rightarrow> error + fnum list" where
  "add_inplace acc v =
     (if length v = length acc then Inr (map2 fadd acc v)
      else if length v = 1 then Inr (map (\<lambda>a. fadd a (hd v)) acc)
      else Inl (ValueError ''operands could not be broadcast together''))"

definition sum_sq :: "fnum list \<Rightarrow> fnum" where
  "sum_sq a = fsum (map (\<lambda>v. fmul v v) a)"

text \<open>\<^verbatim>\<open>np.clip(m, 0, None)\<close>: the greater of each entry and 0, and NaN for NaN.\<close>

definition clip0 :: "fnum list \<Rightarrow> fnum list" where
  "clip0 m = map (\<lambda>v. fmaximum v (Fin 0)) m"

text \<open>
  \<^verbatim>\<open>ref_pairs.sort(key=lambda p: p[1], reverse=True)\<close>: the pairs by multiplier, largest
  first, pairs of equal multipliers staying in their order. With NaN among the
  multipliers the comparisons are not an order and the outcome depends on the
  interpreter's sorting algorithm; the function below is one stable insertion sort.
\<close>

fun insert_desc :: "'a \<times> fnum \<Rightarrow> ('a \<times> fnum) list \<Rightarrow> ('a \<times> fnum) list" where
  "insert_desc p [] = [p]"
| "insert_desc p (q # qs) = (if flt (snd p) (snd q) then q # insert_desc p qs else p # q # qs)"

definition sort_desc :: "('a \<times> fnum) list \<Rightarrow> ('a \<times> fnum) list" where
  "sort_desc ps = foldr insert_desc ps []"

text \<open>
  What the loop body computes for one sample before it plots: the sample after the
  baseline correction, the multipliers, \<open>r2\<close>, the pairs of references and multipliers in
  the order of the plot, and the combined fit.
\<close>

record fit =
  fit_sample :: Spectrum
  fit_multiplier :: "fnum list"
  fit_r2 :: "fnum option"
  fit_pairs :: "(Spectrum \<times> fnum) list"
  fit_combined :: "fnum list"

text \<open>
  The solve branch, taken when \<^verbatim>\<open>ref_multiplier is None\<close>. \<open>lstsq\<close> stands for
  \<^verbatim>\<open>np.linalg.lstsq(A, y, rcond=None)\<close> and returns the solution and the array of
  residuals; \<^verbatim>\<open>np.column_stack\<close> raises without any column. The multipliers are clipped
  after the solve, when the setting says so.
\<close>

definition solve_multipliers :: "config \<Rightarrow>
    (fnum list list \<Rightarrow> fnum list \<Rightarrow> error + fnum list \<times> fnum list) \<Rightarrow>
    Spectrum list \<Rightarrow> Spectrum \<Rightarrow> error + fnum list \<times> fnum option" where
  "solve_multipliers cfg lstsq ref_data s =
     (case map_err (interpolate_to (x_data s)) ref_data of
        Inl e \<Rightarrow> Inl e
      | Inr cols \<Rightarrow>
          if cols = [] then Inl (ValueError ''need at least one array to concatenate'')
          else
            (case get_y_absorbance s of
               Inl e \<Rightarrow> Inl e
             | Inr ya \<Rightarrow>
                 (case lstsq cols ya of
                    Inl e \<Rightarrow> Inl e
                  | Inr sol \<Rightarrow>
                      (let m = (if clamp_negative_multipliers cfg then clip0 (fst sol) else fst sol);
                           residuals = snd sol;
                           ss_tot = sum_sq (map (\<lambda>v. fsub v (fmean ya)) ya)
                       in if residuals \<noteq> [] then
                            Inr (m, Some (fsub (Fin 1) (fdiv (hd residuals) ss_tot)))
                          else
                            (case matvec cols m (length (x_data s)) of
                               Inl e \<Rightarrow> Inl e
                             | Inr am \<Rightarrow>
                                 (case np_sub ya am of
                                    Inl e \<Rightarrow> Inl e
                                  | Inr d \<Rightarrow>
                                      Inr (m, Some (fsub (Fin 1) (fdiv (sum_sq d) ss_tot)))))))))"

text \<open>
  The loop over the sorted pairs: each reference is interpolated to the sample's grid and
  added, times its multiplier, to \<^verbatim>\<open>combined\<close>.
\<close>

fun combine :: "real list \<Rightarrow> fnum list \<Rightarrow> (Spectrum \<times> fnum) list \<Rightarrow> error + fnum list" where
  "combine sx acc [] = Inr acc"
| "combine sx acc (p # ps) =
     (case interpolate_to sx (fst p) of
        Inl e \<Rightarrow> Inl e
      | Inr y_ref \<Rightarrow>
          (case add_inplace acc (map (\<lambda>v. fmul v (snd p)) y_ref) of
             Inl e \<Rightarrow> Inl e
           | Inr acc' \<Rightarrow> combine sx acc' ps))"

text \<open>
  The body of the loop over the samples. In manual mode the multipliers are the
  configured list as it is.
\<close>

definition analyze_sample :: "config \<Rightarrow>
    (fnum list list \<Rightarrow> fnum list \<Rightarrow> error + fnum list \<times> fnum list) \<Rightarrow>
    Spectrum list \<Rightarrow> Spectrum \<Rightarrow> error + fit" where
  "analyze_sample cfg lstsq ref_data s0 =
     (case (if baseline_correction_use cfg then correct_linear_baseline cfg s0 else Inr s0) of
        Inl e \<Rightarrow> Inl e
      | Inr s \<Rightarrow>
          (case (case ref_multiplier cfg of
                   None \<Rightarrow> solve_multipliers cfg lstsq ref_data s
                 | Some m \<Rightarrow> Inr (map Fin m, None)) of
             Inl e \<Rightarrow> Inl e
           | Inr mr \<Rightarrow>
               (case get_y_absorbance s of
                  Inl e \<Rightarrow> Inl e
                | Inr ya \<Rightarrow>
                    (let ref_pairs = sort_desc (zip ref_data (fst mr))
                     in case combine (x_data s) (replicate (length ya) (Fin 0)) ref_pairs of
                          Inl e \<Rightarrow> Inl e
                        | Inr combined \<Rightarrow>
                            Inr \<lparr> fit_sample = s, fit_multiplier = fst mr, fit_r2 = snd mr,
                                  fit_pairs = ref_pairs, fit_combined = combined \<rparr>))))"

text \<open>
  \<^verbatim>\<open>analyze_spectrum\<close>: the references are loaded first, then the manual settings are
  tested, the references are selected and the samples are analysed one after the other.
\<close>

definition analyze_spectrum :: "config \<Rightarrow> (string \<Rightarrow> real option) \<Rightarrow> (string \<Rightarrow> int option) \<Rightarrow>
    (fnum list list \<Rightarrow> fnum list \<Rightarrow> error + fnum list \<times> fnum list) \<Rightarrow>
    directory \<Rightarrow> Spectrum list \<Rightarrow> error + fit list" where
  "analyze_spectrum cfg pf pint lstsq ref_files samples =
     (case get_references cfg pf pint ref_files of
        Inl e \<Rightarrow> Inl e
      | Inr ref_data0 \<Rightarrow>
          (case check_multipliers cfg of
             Inl e \<Rightarrow> Inl e
           | Inr u \<Rightarrow> map_err (analyze_sample cfg lstsq (select_refs cfg ref_data0)) samples))"

section \<open>The vocabulary of the statements\<close>

text \<open>
  A structured file, seen from outside the loader: whether a line is a header line with a
  given label, the text of its value, the value of the last header line with a label, and
  the tokens after the first of every line that starts with a digit, in the order of the
  file.
\<close>

definition is_header :: "string \<Rightarrow> string \<Rightarrow> bool" where
  "is_header label raw =
     (take 2 (strip raw) = ''##'' \<and> CHR ''='' \<in> set (strip raw) \<and>
      upper (strip (fst (split_eq1 (drop 2 (strip raw))))) = label)"

definition header_value :: "string \<Rightarrow> string" where
  "header_value raw = strip (snd (split_eq1 (drop 2 (strip raw))))"

definition last_header :: "string \<Rightarrow> string list \<Rightarrow> string option" where
  "last_header label file =
     (let hs = filter (is_header label) file
      in if hs = [] then None else Some (header_value (last hs)))"

definition is_data :: "string \<Rightarrow> bool" where
  "is_data raw = (strip raw \<noteq> [] \<and> isdigit (hd (strip raw)))"

definition data_tokens :: "string list \<Rightarrow> string list" where
  "data_tokens file = concat (map (\<lambda>raw. tl (split_ws (strip raw))) (filter is_data file))"

text \<open>
  A row of a tabular file, seen from outside the loader: its comma-separated fields after
  stripping, the rows the loop accepts (two fields or more, the first two of them
  numbers), the exception the loop raises on any other row that is not blank, and the
  rows of a file that are not blank, after the header.
\<close>

definition fields :: "string \<Rightarrow> string list" where
  "fields raw = split_on (\<lambda>c. c = CHR '','') (strip raw)"

definition row_ok :: "(string \<Rightarrow> real option) \<Rightarrow> string \<Rightarrow> bool" where
  "row_ok pf raw =
     (2 \<le> length (fields raw) \<and> pf (fields raw ! 0) \<noteq> None \<and> pf (fields raw ! 1) \<noteq> None)"

definition row_error :: "string \<Rightarrow> error" where
  "row_error raw =
     ValueError ((if length (fields raw) < 2 then ''Invalid CSV row (expected 2 columns): ''
                  else ''Non-numeric value in row: '') @ strip raw)"

definition data_rows :: "int \<Rightarrow> string list \<Rightarrow> string list" where
  "data_rows header_size file = filter (\<lambda>l. strip l \<noteq> []) (drop (nat header_size) file)"

section \<open>Concrete files and spectra\<close>

text \<open>
  The structured file of the specification's scenario (three points from 1.0 in steps of
  1.0) with the spectrum it loads as; the same file with a data line whose first token is
  5.0; and the same file starting at 0.0.
\<close>

definition jdx_example :: "string list" where
  "jdx_example =
     [''##TITLE=Water'', ''##MOLFORM=H2 O'', ''##YUNITS=ABSORBANCE'', ''##FIRSTX=1.0'',
      ''##DELTAX=1.0'', ''##NPOINTS=3'', ''1.0 0.1 0.2 0.3'', ''##END='']"

definition jdx_other_anchor :: "string list" where
  "jdx_other_anchor =
     [''##TITLE=Water'', ''##MOLFORM=H2 O'', ''##YUNITS=ABSORBANCE'', ''##FIRSTX=1.0'',
      ''##DELTAX=1.0'', ''##NPOINTS=3'', ''5.0 0.1 0.2 0.3'', ''##END='']"

definition water_spectrum :: Spectrum where
  "water_spectrum =
     new_spectrum\<lparr>title := Some ''Water'', molform := Some ''H2O'',
       yunits := Some ''ABSORBANCE'', deltax := Some 1, firstx := Some 1,
       npoints := Some 3, x_data := [1, 2, 3],
       y_data := [Fin (1 / 10), Fin (1 / 5), Fin (3 / 10)]\<rparr>"

definition jdx_zero_firstx :: "string list" where
  "jdx_zero_firstx =
     [''##TITLE=Water'', ''##MOLFORM=H2O'', ''##YUNITS=ABSORBANCE'', ''##FIRSTX=0.0'',
      ''##DELTAX=1.0'', ''##NPOINTS=3'', ''0.0 0.1 0.2 0.3'', ''##END='']"

text \<open>
  A structured file whose abscissae descend (a negative step) with the spectrum it loads
  as, and a spectrum with the same samples in ascending order.
\<close>

definition jdx_descending :: "string list" where
  "jdx_descending =
     [''##TITLE=Carbon dioxide'', ''##MOLFORM=C O2'', ''##YUNITS=ABSORBANCE'', ''##FIRSTX=3.0'',
      ''##DELTAX=-1.0'', ''##NPOINTS=3'', ''3.0 10 20 30'', ''##END='']"

definition descending_reference :: Spectrum where
  "descending_reference =
     new_spectrum\<lparr>title := Some ''Carbon dioxide'', molform := Some ''CO2'',
       yunits := Some ''ABSORBANCE'', deltax := Some (- 1), firstx := Some 3,
       npoints := Some 3, x_data := [3, 2, 1], y_data := [Fin 10, Fin 20, Fin 30]\<rparr>"

definition ascending_reference :: Spectrum where
  "ascending_reference =
     new_spectrum\<lparr>title := Some ''Carbon dioxide'', molform := Some ''CO2'',
       yunits := Some ''ABSORBANCE'', deltax := Some 1, firstx := Some 1,
       npoints := Some 3, x_data := [1, 2, 3], y_data := [Fin 30, Fin 20, Fin 10]\<rparr>"

text \<open>
  The tabular file of the specification's scenario with the spectrum it loads as from
  \<^verbatim>\<open>data/sample/sample.csv\<close>; the same rows with more fields; a file of three rows
  with the spectrum it loads as; a file with a row of one field; files with one data row
  and with none; and a file whose two rows have the same abscissa, with the spectrum it
  loads as.
\<close>

definition csv_example :: "string list" where
  "csv_example = [''wavenumber,absorbance'', ''1.0,0.5'', ''2.0,1.5'']"

definition csv_spectrum :: Spectrum where
  "csv_spectrum =
     new_spectrum\<lparr>title := Some ''sample'', xunits := Some ''1/cm'', yunits := Some ''ABSORBANCE'',
       firstx := Some 1, lastx := Some 2, firsty := Some (3 / 2), maxx := Some 2, minx := Some 1,
       maxy := Some (3 / 2), miny := Some (1 / 2), npoints := Some 2,
       x_data := [1, 2], y_data := [Fin (1 / 2), Fin (3 / 2)]\<rparr>"

definition csv_extra_fields :: "string list" where
  "csv_extra_fields = [''wavenumber,absorbance'', ''1.0,0.5,junk'', ''2.0,1.5,7,8'']"

definition csv_three_rows :: "string list" where
  "csv_three_rows = [''wavenumber,absorbance'', ''1.0,0.5'', ''2.0,1.5'', [], ''3.0,9.5'']"

definition three_row_spectrum :: Spectrum where
  "three_row_spectrum =
     new_spectrum\<lparr>title := Some ''sample'', xunits := Some ''1/cm'', yunits := Some ''ABSORBANCE'',
       firstx := Some 1, lastx := Some 3, firsty := Some (3 / 2), maxx := Some 3, minx := Some 1,
       maxy := Some (19 / 2), miny := Some (1 / 2), npoints := Some 3,
       x_data := [1, 2, 3], y_data := [Fin (1 / 2), Fin (3 / 2), Fin (19 / 2)]\<rparr>"

definition csv_short_row :: "string list" where
  "csv_short_row = [''wavenumber,absorbance'', ''1.0,0.5'', [], ''  2.0;1.5  '', ''3.0,2.5'']"

definition csv_one_row :: "string list" where
  "csv_one_row = [''wavenumber,absorbance'', ''1.0,0.5'', []]"

definition csv_no_rows :: "string list" where
  "csv_no_rows = [''wavenumber,absorbance'', ''   '']"

definition csv_flat :: "string list" where
  "csv_flat = [''wavenumber,absorbance'', ''1.0,0.5'', ''1.0,1.5'']"

definition flat_spectrum :: Spectrum where
  "flat_spectrum =
     new_spectrum\<lparr>title := Some ''flat'', xunits := Some ''1/cm'', yunits := Some ''ABSORBANCE'',
       firstx := Some 1, lastx := Some 1, firsty := Some (3 / 2), maxx := Some 1, minx := Some 1,
       maxy := Some (3 / 2), miny := Some (1 / 2), npoints := Some 2,
       x_data := [1, 1], y_data := [Fin (1 / 2), Fin (3 / 2)]\<rparr>"

text \<open>Spectra with a unit that is not supported, and with transmittance.\<close>

definition micron_spectrum :: Spectrum where
  "micron_spectrum =
     new_spectrum\<lparr>title := Some ''probe'', yunits := Some ''MICRONS'',
       x_data := [1, 2], y_data := [Fin (1 / 2), Fin (1 / 4)]\<rparr>"

definition transmittance_spectrum :: Spectrum where
  "transmittance_spectrum =
     new_spectrum\<lparr>title := Some ''probe'', yunits := Some '' Transmittance '',
       x_data := [1, 2], y_data := [Fin (1 / 2), Fin 0]\<rparr>"

text \<open>
  Settings with manual multipliers: two multipliers for one name (the specification's
  scenario), two multipliers without names, an empty list of multipliers for one name,
  and one negative multiplier for one name.
\<close>

definition manual_config :: config where
  "manual_config =
     config_py\<lparr>ref_multiplier := Some [1 / 2, 1 / 2], selected_ref_names := Some [''H2O'']\<rparr>"

definition unnamed_manual_config :: config where
  "unnamed_manual_config = config_py\<lparr>ref_multiplier := Some [1 / 2, 1 / 2]\<rparr>"

definition empty_manual_config :: config where
  "empty_manual_config =
     config_py\<lparr>ref_multiplier := Some [], selected_ref_names := Some [''H2O'']\<rparr>"

definition negative_manual_config :: config where
  "negative_manual_config =
     config_py\<lparr>ref_multiplier := Some [- 2], selected_ref_names := Some [''H2O'']\<rparr>"

text \<open>
  A reference directory with the one file above, and one whose only file lacks its
  formula.
\<close>

definition reference_dir :: directory where
  "reference_dir = [(''data/reference/water.jdx'', jdx_example)]"

definition broken_dir :: directory where
  "broken_dir = [(''data/reference/broken.jdx'', [''##TITLE=Water''])]"

text \<open>
  A stand-in for the solver in concrete runs: it answers NaN for every column when the
  right-hand side holds a NaN, as numpy's solver does, and the multiplier \<open>-2\<close> for every
  column otherwise, always with an empty array of residuals.
\<close>

definition lstsq_stub :: "fnum list list \<Rightarrow> fnum list \<Rightarrow> error + fnum list \<times> fnum list" where
  "lstsq_stub cols ya = Inr (map (\<lambda>c. if NaN \<in> set ya then NaN else Fin (- 2)) cols, [])"

text \<open>
  The sample \<open>csv_spectrum\<close> after the baseline correction with the shipped settings,
  and what its analysis against \<open>water_spectrum\<close> computes in a solve run, with the
  manual multiplier \<open>-2\<close>, and with the empty list of multipliers; the sample
  \<open>flat_spectrum\<close> after the baseline correction, and what its analysis computes in a solve
  run.
\<close>

definition corrected_sample :: Spectrum where
  "corrected_sample = csv_spectrum\<lparr>y_data := [Fin (- 1 / 2), Fin (1 / 2)]\<rparr>"

definition solve_fit :: fit where
  "solve_fit =
     \<lparr> fit_sample = corrected_sample, fit_multiplier = [Fin 0], fit_r2 = Some (Fin 0),
       fit_pairs = [(water_spectrum, Fin 0)], fit_combined = [Fin 0, Fin 0] \<rparr>"

definition manual_fit :: fit where
  "manual_fit =
     \<lparr> fit_sample = corrected_sample, fit_multiplier = [Fin (- 2)], fit_r2 = None,
       fit_pairs = [(water_spectrum, Fin (- 2))],
       fit_combined = [Fin (- 1 / 5), Fin (- 2 / 5)] \<rparr>"

definition empty_fit :: fit where
  "empty_fit =
     \<lparr> fit_sample = corrected_sample, fit_multiplier = [], fit_r2 = None,
       fit_pairs = [], fit_combined = [Fin 0, Fin 0] \<rparr>"

definition flat_corrected :: Spectrum where
  "flat_corrected = flat_spectrum\<lparr>y_data := [NaN, NaN]\<rparr>"

definition nan_fit :: fit where
  "nan_fit =
     \<lparr> fit_sample = flat_corrected, fit_multiplier = [NaN], fit_r2 = Some NaN,
       fit_pairs = [(water_spectrum, NaN)], fit_combined = [NaN, NaN] \<rparr>"

section \<open>The structured format: what a successful load guarantees\<close>

lemma keymap_labels:
  assumes "map_of keymap label = Some a"
  shows "(a = ''firstx'') = (label = ''FIRSTX'') \<and> (a = ''deltax'') = (label = ''DELTAX'') \<and>
         (a = ''yfactor'') = (label = ''YFACTOR'') \<and> (a = ''npoints'') = (label = ''NPOINTS'')"
proof -
  have "\<forall>p \<in> set keymap.
          (snd p = ''firstx'') = (fst p = ''FIRSTX'') \<and> (snd p = ''deltax'') = (fst p = ''DELTAX'') \<and>
          (snd p = ''yfactor'') = (fst p = ''YFACTOR'') \<and> (snd p = ''npoints'') = (fst p = ''NPOINTS'')"
    by (simp add: keymap_def)
  moreover from assms have "(label, a) \<in> set keymap" by (rule map_of_SomeD)
  ultimately show ?thesis by fastforce
qed

lemma keymap_labels_None:
  assumes "map_of keymap label = None"
  shows "label \<noteq> ''FIRSTX'' \<and> label \<noteq> ''DELTAX'' \<and> label \<noteq> ''YFACTOR'' \<and> label \<noteq> ''NPOINTS''"
proof -
  have "map_of keymap ''FIRSTX'' \<noteq> None" "map_of keymap ''DELTAX'' \<noteq> None"
    "map_of keymap ''YFACTOR'' \<noteq> None" "map_of keymap ''NPOINTS'' \<noteq> None"
    by (simp_all add: keymap_def)
  with assms show ?thesis by auto
qed

lemma type_hint_cases:
  "type_hint a = HFloat \<Longrightarrow> a \<noteq> ''npoints''"
  "type_hint a = HInt \<Longrightarrow> a = ''npoints''"
  "type_hint a = HOther \<Longrightarrow> a \<noteq> ''firstx'' \<and> a \<noteq> ''deltax'' \<and> a \<noteq> ''yfactor'' \<and> a \<noteq> ''npoints''"
  "type_hint ''firstx'' = HFloat" "type_hint ''deltax'' = HFloat" "type_hint ''yfactor'' = HFloat"
  by (auto simp: type_hint_def split: if_splits)

lemma setattr_float_fields:
  "firstx (setattr_float s a v) = (if a = ''firstx'' then Some v else firstx s)"
  "deltax (setattr_float s a v) = (if a = ''deltax'' then Some v else deltax s)"
  "yfactor (setattr_float s a v) = (if a = ''yfactor'' then Some v else yfactor s)"
  "npoints (setattr_float s a v) = npoints s"
  by (simp_all add: setattr_float_def)

lemma setattr_int_fields:
  "firstx (setattr_int s a i) = firstx s" "deltax (setattr_int s a i) = deltax s"
  "yfactor (setattr_int s a i) = yfactor s"
  "npoints (setattr_int s a i) = (if a = ''npoints'' then Some i else npoints s)"
  by (simp_all add: setattr_int_def)

lemma setattr_str_fields:
  "firstx (setattr_str s a v) = firstx s" "deltax (setattr_str s a v) = deltax s"
  "yfactor (setattr_str s a v) = yfactor s" "npoints (setattr_str s a v) = npoints s"
  by (simp_all add: setattr_str_def)

text \<open>
  What one pass of the header branch does to the four fields the arrays depend on: a
  header line with the label of a field sets it to the reading of the line's value, and
  any other line leaves it as it was.
\<close>

lemma jdx_header_fields:
  assumes "jdx_header pf pint s (strip raw) = Inr s'"
  shows "firstx s' = (if is_header ''FIRSTX'' raw then pf (header_value raw) else firstx s) \<and>
         deltax s' = (if is_header ''DELTAX'' raw then pf (header_value raw) else deltax s) \<and>
         yfactor s' = (if is_header ''YFACTOR'' raw then pf (header_value raw) else yfactor s) \<and>
         npoints s' = (if is_header ''NPOINTS'' raw then pint (header_value raw) else npoints s)"
proof (cases "take 2 (strip raw) = ''##'' \<and> CHR ''='' \<in> set (strip raw)")
  case False
  with assms show ?thesis
    by (auto simp: jdx_header_def is_header_def)
next
  case True
  define label where "label = upper (strip (fst (split_eq1 (drop 2 (strip raw)))))"
  have hd: "is_header l raw = (label = l)" for l
    using True by (auto simp: is_header_def label_def)
  have body: "jdx_header pf pint s (strip raw) =
      (case map_of keymap label of
         None \<Rightarrow> Inr s
       | Some a \<Rightarrow>
           (case type_hint a of
              HFloat \<Rightarrow>
                (case pf (header_value raw) of
                   None \<Rightarrow> Inl (ValueError (''could not convert string to float: '' @ quoted (header_value raw)))
                 | Some r \<Rightarrow> Inr (setattr_float s a r))
            | HInt \<Rightarrow>
                (case pint (header_value raw) of
                   None \<Rightarrow>
                     Inl (ValueError (''invalid literal for int() with base 10: '' @ quoted (header_value raw)))
                 | Some i \<Rightarrow> Inr (setattr_int s a i))
            | HOther \<Rightarrow> Inr (setattr_str s a (header_value raw))))"
    using True unfolding jdx_header_def label_def header_value_def
    by (simp add: case_prod_beta Let_def)
  show ?thesis
  proof (cases "map_of keymap label")
    case None
    with assms body have "s' = s" by simp
    with keymap_labels_None [OF None] show ?thesis by (simp add: hd)
  next
    case (Some a)
    note lab = keymap_labels [OF Some]
    show ?thesis
    proof (cases "type_hint a")
      case HFloat
      with assms body Some obtain r where r: "pf (header_value raw) = Some r" "s' = setattr_float s a r"
        by (auto split: option.splits)
      from type_hint_cases(1) [OF HFloat] lab have "label \<noteq> ''NPOINTS''" by simp
      with r lab show ?thesis
        by (simp add: hd setattr_float_fields)
    next
      case HInt
      with assms body Some obtain i where i: "pint (header_value raw) = Some i" "s' = setattr_int s a i"
        by (auto split: option.splits)
      from type_hint_cases(2) [OF HInt] lab have "label = ''NPOINTS''" "a = ''npoints''" by simp_all
      with i show ?thesis
        by (simp add: hd setattr_int_fields)
    next
      case HOther
      with assms body Some have s': "s' = setattr_str s a (header_value raw)" by simp
      from type_hint_cases(3) [OF HOther] lab
      have "label \<noteq> ''FIRSTX''" "label \<noteq> ''DELTAX''" "label \<noteq> ''YFACTOR''" "label \<noteq> ''NPOINTS''"
        by simp_all
      with s' show ?thesis
        by (simp add: hd setattr_str_fields)
    qed
  qed
qed

lemma those_map_Some: "those zs = Some ys \<Longrightarrow> zs = map Some ys"
  by (induction zs arbitrary: ys) (auto split: option.splits)

lemma jdx_data_tokens:
  assumes "jdx_data pf ys (strip raw) = Inr ys'"
  shows "\<exists>vs. ys' = ys @ vs \<and>
           map pf (if is_data raw then tl (split_ws (strip raw)) else []) = map Some vs"
  using assms
  by (auto simp: jdx_data_def is_data_def split: if_splits option.splits dest: those_map_Some)

lemma last_header_Cons:
  "last_header label (l # ls) =
     (case last_header label ls of
        Some v \<Rightarrow> Some v
      | None \<Rightarrow> if is_header label l then Some (header_value l) else None)"
  by (simp add: last_header_def Let_def)

lemma data_tokens_Cons:
  "data_tokens (l # ls) = (if is_data l then tl (split_ws (strip l)) else []) @ data_tokens ls"
  by (simp add: data_tokens_def)

text \<open>
  After the loop over the lines each of the four fields holds the reading of the last
  header line with its label (or its initial value without such a line), and the list of
  values has grown by the readings of the data tokens, in the order of the file.
\<close>

lemma jdx_lines_scan:
  assumes "jdx_lines pf pint acc lns = Inr acc'"
  shows "firstx (fst acc') =
           (case last_header ''FIRSTX'' lns of None \<Rightarrow> firstx (fst acc) | Some v \<Rightarrow> pf v) \<and>
         deltax (fst acc') =
           (case last_header ''DELTAX'' lns of None \<Rightarrow> deltax (fst acc) | Some v \<Rightarrow> pf v) \<and>
         yfactor (fst acc') =
           (case last_header ''YFACTOR'' lns of None \<Rightarrow> yfactor (fst acc) | Some v \<Rightarrow> pf v) \<and>
         npoints (fst acc') =
           (case last_header ''NPOINTS'' lns of None \<Rightarrow> npoints (fst acc) | Some v \<Rightarrow> pint v) \<and>
         (\<exists>vs. snd acc' = snd acc @ vs \<and> map pf (data_tokens lns) = map Some vs)"
  using assms
proof (induction lns arbitrary: acc)
  case Nil
  then show ?case by (simp add: last_header_def data_tokens_def)
next
  case (Cons l ls)
  from Cons.prems obtain s1 ys1 where
    h: "jdx_header pf pint (fst acc) (strip l) = Inr s1" and
    d: "jdx_data pf (snd acc) (strip l) = Inr ys1" and
    rest: "jdx_lines pf pint (s1, ys1) ls = Inr acc'"
    by (auto simp: jdx_line_def Let_def split: sum.splits)
  note H = jdx_header_fields [OF h]
  from jdx_data_tokens [OF d] obtain vs1 where
    vs1: "ys1 = snd acc @ vs1"
      "map pf (if is_data l then tl (split_ws (strip l)) else []) = map Some vs1"
    by blast
  note IH = Cons.IH [OF rest]
  from IH obtain vs where
    vs: "snd acc' = ys1 @ vs" "map pf (data_tokens ls) = map Some vs"
    by auto
  have tok: "\<exists>ws. snd acc' = snd acc @ ws \<and> map pf (data_tokens (l # ls)) = map Some ws"
    using vs vs1 by (intro exI [of _ "vs1 @ vs"]) (simp add: data_tokens_Cons)
  have "firstx (fst acc') =
      (case last_header ''FIRSTX'' (l # ls) of None \<Rightarrow> firstx (fst acc) | Some v \<Rightarrow> pf v)"
    using IH H by (simp add: last_header_Cons split: option.splits)
  moreover have "deltax (fst acc') =
      (case last_header ''DELTAX'' (l # ls) of None \<Rightarrow> deltax (fst acc) | Some v \<Rightarrow> pf v)"
    using IH H by (simp add: last_header_Cons split: option.splits)
  moreover have "yfactor (fst acc') =
      (case last_header ''YFACTOR'' (l # ls) of None \<Rightarrow> yfactor (fst acc) | Some v \<Rightarrow> pf v)"
    using IH H by (simp add: last_header_Cons split: option.splits)
  moreover have "npoints (fst acc') =
      (case last_header ''NPOINTS'' (l # ls) of None \<Rightarrow> npoints (fst acc) | Some v \<Rightarrow> pint v)"
    using IH H by (simp add: last_header_Cons split: option.splits)
  ultimately show ?case using tok by blast
qed

lemma jdx_finish_shape:
  assumes "jdx_finish required path acc = Inr s"
  shows "\<exists>n d f. npoints (fst acc) = Some n \<and> deltax (fst acc) = Some d \<and>
           firstx (fst acc) = Some f \<and> npoints s = Some n \<and> deltax s = Some d \<and>
           firstx s = Some f \<and> yfactor s = yfactor (fst acc) \<and> 0 < n \<and>
           length (x_data s) = nat n \<and> length (snd acc) = nat n \<and> x_data s = gen_x n d f \<and>
           y_data s = map (\<lambda>v. Fin (case yfactor s of None \<Rightarrow> v | Some k \<Rightarrow> v * k)) (snd acc)"
  using assms
  by (auto simp: jdx_finish_def Let_def gen_x_def split: sum.splits option.splits if_splits)

text \<open>
  Claim C1. Whenever \<open>from_jdx\<close> returns a spectrum, the file has header lines with the
  labels \<^verbatim>\<open>NPOINTS\<close>, \<^verbatim>\<open>DELTAX\<close> and \<^verbatim>\<open>FIRSTX\<close>; with \<open>n\<close>, \<open>d\<close> and \<open>f\<close> the
  readings of the values of the last such lines, these are the point count, the step and
  the first abscissa of the spectrum, \<open>n\<close> is positive, both arrays have \<open>n\<close> elements, and
  the array \<open>x\<close> is the list of the values \<open>f + i * d\<close> for \<open>i\<close> from 0 below \<open>n\<close>. No token
  of a data line enters \<open>x\<close>: the tokens after the first of each data line are, in the
  order of the file and scaled by the y factor, the array \<open>y\<close>, and the first token is
  dropped.
\<close>

theorem from_jdx_regenerates_x:
  assumes "from_jdx cfg pf pint path file = Inr s"
  shows "\<exists>vn vd vf n d f ys.
           last_header ''NPOINTS'' file = Some vn \<and> pint vn = Some n \<and>
           last_header ''DELTAX'' file = Some vd \<and> pf vd = Some d \<and>
           last_header ''FIRSTX'' file = Some vf \<and> pf vf = Some f \<and>
           npoints s = Some n \<and> deltax s = Some d \<and> firstx s = Some f \<and> 0 < n \<and>
           length (x_data s) = nat n \<and> length (y_data s) = nat n \<and>
           x_data s = map (\<lambda>i. f + real i * d) [0..<nat n] \<and>
           (\<forall>i < nat n. x_data s ! i = f + real i * d) \<and>
           map pf (data_tokens file) = map Some ys \<and>
           y_data s = map (\<lambda>v. Fin (case yfactor s of None \<Rightarrow> v | Some k \<Rightarrow> v * k)) ys"
proof -
  from assms obtain acc where
    scan: "jdx_lines pf pint (new_spectrum, []) file = Inr acc" and
    fin: "jdx_finish (required_fields_in_jdx cfg) path acc = Inr s"
    by (auto simp: from_jdx_def split: sum.splits)
  from jdx_finish_shape [OF fin] obtain n d f where
    h: "npoints (fst acc) = Some n" "deltax (fst acc) = Some d" "firstx (fst acc) = Some f"
       "npoints s = Some n" "deltax s = Some d" "firstx s = Some f" "0 < n"
       "length (x_data s) = nat n" "length (snd acc) = nat n" "x_data s = gen_x n d f"
       "y_data s = map (\<lambda>v. Fin (case yfactor s of None \<Rightarrow> v | Some k \<Rightarrow> v * k)) (snd acc)"
    by blast
  note S = jdx_lines_scan [OF scan]
  have none: "npoints new_spectrum = None" "deltax new_spectrum = None" "firstx new_spectrum = None"
    by (simp_all add: new_spectrum_def)
  from S h(1) none obtain vn where vn: "last_header ''NPOINTS'' file = Some vn" "pint vn = Some n"
    by (cases "last_header ''NPOINTS'' file") auto
  from S h(2) none obtain vd where vd: "last_header ''DELTAX'' file = Some vd" "pf vd = Some d"
    by (cases "last_header ''DELTAX'' file") auto
  from S h(3) none obtain vf where vf: "last_header ''FIRSTX'' file = Some vf" "pf vf = Some f"
    by (cases "last_header ''FIRSTX'' file") auto
  from S have tok: "map pf (data_tokens file) = map Some (snd acc)"
    by auto
  have x1: "x_data s = map (\<lambda>i. f + real i * d) [0..<nat n]"
    using h(10) by (simp add: gen_x_def add.commute)
  have x2: "\<forall>i < nat n. x_data s ! i = f + real i * d"
    using h(10) by (simp add: gen_x_def add.commute)
  have ly: "length (y_data s) = nat n"
    using h(9) h(11) by simp
  from vn vd vf h(4-8) ly x1 x2 tok h(11) show ?thesis by blast
qed

text \<open>
  Claim C1 at the file of the specification's scenario with a data line that starts with
  the token \<^verbatim>\<open>5.0\<close>: the abscissae are 1, 2, 3, from \<^verbatim>\<open>FIRSTX=1.0\<close> and
  \<^verbatim>\<open>DELTAX=1.0\<close>.
\<close>

theorem from_jdx_regenerates_x_witness:
  "from_jdx config_py dec_float dec_int ''water.jdx'' jdx_other_anchor = Inr water_spectrum \<and>
   last_header ''FIRSTX'' jdx_other_anchor = Some ''1.0'' \<and>
   last_header ''DELTAX'' jdx_other_anchor = Some ''1.0'' \<and>
   last_header ''NPOINTS'' jdx_other_anchor = Some ''3'' \<and>
   data_tokens jdx_other_anchor = [''0.1'', ''0.2'', ''0.3''] \<and>
   x_data water_spectrum = [1, 2, 3] \<and>
   (\<exists>vn vd vf n d f ys.
      last_header ''NPOINTS'' jdx_other_anchor = Some vn \<and> dec_int vn = Some n \<and>
      last_header ''DELTAX'' jdx_other_anchor = Some vd \<and> dec_float vd = Some d \<and>
      last_header ''FIRSTX'' jdx_other_anchor = Some vf \<and> dec_float vf = Some f \<and>
      npoints water_spectrum = Some n \<and> deltax water_spectrum = Some d \<and>
      firstx water_spectrum = Some f \<and> 0 < n \<and>
      length (x_data water_spectrum) = nat n \<and> length (y_data water_spectrum) = nat n \<and>
      x_data water_spectrum = map (\<lambda>i. f + real i * d) [0..<nat n] \<and>
      (\<forall>i < nat n. x_data water_spectrum ! i = f + real i * d) \<and>
      map dec_float (data_tokens jdx_other_anchor) = map Some ys \<and>
      y_data water_spectrum =
        map (\<lambda>v. Fin (case yfactor water_spectrum of None \<Rightarrow> v | Some k \<Rightarrow> v * k)) ys)"
proof -
  have h: "from_jdx config_py dec_float dec_int ''water.jdx'' jdx_other_anchor = Inr water_spectrum"
    by code_simp
  have l: "last_header ''FIRSTX'' jdx_other_anchor = Some ''1.0''"
    "last_header ''DELTAX'' jdx_other_anchor = Some ''1.0''"
    "last_header ''NPOINTS'' jdx_other_anchor = Some ''3''"
    "data_tokens jdx_other_anchor = [''0.1'', ''0.2'', ''0.3'']"
    by code_simp+
  have x: "x_data water_spectrum = [1, 2, 3]"
    by (simp add: water_spectrum_def)
  from from_jdx_regenerates_x [OF h] h l x show ?thesis by simp
qed

text \<open>
  Claim C2, at the file that declares \<^verbatim>\<open>FIRSTX=0.0\<close>. The loop over the lines reads every
  required field, the first abscissa as 0; the test \<^verbatim>\<open>not getattr(s, key)\<close> then takes
  the number 0 for a field that was not read, and the load stops with
  \<^verbatim>\<open>Could not parse firstx\<close>.
\<close>

theorem from_jdx_rejects_zero_firstx:
  "jdx_lines dec_float dec_int (new_spectrum, []) jdx_zero_firstx =
     Inr (new_spectrum\<lparr>title := Some ''Water'', molform := Some ''H2O'',
            yunits := Some ''ABSORBANCE'', deltax := Some 1, firstx := Some 0,
            npoints := Some 3\<rparr>, [1 / 10, 1 / 5, 3 / 10]) \<and>
   from_jdx config_py dec_float dec_int ''zero.jdx'' jdx_zero_firstx =
     Inl (ValueError ''Could not parse firstx in zero.jdx'')"
  by code_simp

section \<open>The tabular format: rows and derived fields\<close>

lemma foldl_max: "foldl (\<lambda>m w. if w > m then w else m) (v::real) ws = Max (set (v # ws))"
proof (induction ws arbitrary: v)
  case Nil
  then show ?case by simp
next
  case (Cons w ws)
  have "Max (insert (if v < w then w else v) (set ws)) = Max (insert v (insert w (set ws)))"
    by (cases "set ws = {}") (auto simp: max_def)
  with Cons show ?case by simp
qed

lemma foldl_min: "foldl (\<lambda>m w. if w < m then w else m) (v::real) ws = Min (set (v # ws))"
proof (induction ws arbitrary: v)
  case Nil
  then show ?case by simp
next
  case (Cons w ws)
  have "Min (insert (if w < v then w else v) (set ws)) = Min (insert v (insert w (set ws)))"
    by (cases "set ws = {}") (auto simp: min_def)
  with Cons show ?case by simp
qed

lemma py_max_Inr: "py_max vs = Inr m \<Longrightarrow> vs \<noteq> [] \<and> m = Max (set vs)"
  unfolding py_max_def using foldl_max by (cases vs) auto

lemma py_min_Inr: "py_min vs = Inr m \<Longrightarrow> vs \<noteq> [] \<and> m = Min (set vs)"
  unfolding py_min_def using foldl_min by (cases vs) auto

lemma csv_row_lengths:
  "csv_row pf acc l = Inr acc' \<Longrightarrow> length (fst acc) = length (snd acc) \<Longrightarrow>
   length (fst acc') = length (snd acc')"
  by (auto simp: csv_row_def Let_def split: if_splits option.splits)

lemma csv_rows_lengths:
  "csv_rows pf acc ls = Inr acc' \<Longrightarrow> length (fst acc) = length (snd acc) \<Longrightarrow>
   length (fst acc') = length (snd acc')"
proof (induction ls arbitrary: acc)
  case Nil
  then show ?case by simp
next
  case (Cons l ls)
  then show ?case
    by (auto split: sum.splits dest: csv_row_lengths)
qed

lemma csv_finish_fields:
  assumes "csv_finish path name mf acc = Inr s"
  shows "x_data s = fst acc \<and> y_data s = map Fin (snd acc) \<and> 2 \<le> length (snd acc) \<and>
         fst acc \<noteq> [] \<and>
         firsty s = Some (snd acc ! 1) \<and> npoints s = Some (int (length (fst acc))) \<and>
         maxx s = Some (Max (set (fst acc))) \<and> minx s = Some (Min (set (fst acc))) \<and>
         maxy s = Some (Max (set (snd acc))) \<and> miny s = Some (Min (set (snd acc))) \<and>
         firstx s = Some (fst acc ! 0) \<and> lastx s = Some (last (fst acc)) \<and>
         xunits s = Some ''1/cm'' \<and> yunits s = Some ''ABSORBANCE''"
  using assms
  by (auto simp: csv_finish_def Let_def py_index_def last_conv_nth
           split: sum.splits if_splits dest!: py_max_Inr py_min_Inr)

lemma csv_row_values:
  assumes "csv_row pf acc l = Inr acc'"
  shows "\<exists>xs ys. acc' = (fst acc @ xs, snd acc @ ys) \<and>
           map (\<lambda>r. pf (fields r ! 0)) (filter (\<lambda>r. strip r \<noteq> []) [l]) = map Some xs \<and>
           map (\<lambda>r. pf (fields r ! 1)) (filter (\<lambda>r. strip r \<noteq> []) [l]) = map Some ys"
  using assms
  by (auto simp: csv_row_def fields_def Let_def split: if_splits option.splits)

text \<open>
  The loop over the rows appends, for every row that is not blank and in the order of the
  file, the reading of its first field to the abscissae and the reading of its second
  field to the values.
\<close>

lemma csv_rows_values:
  assumes "csv_rows pf acc ls = Inr acc'"
  shows "\<exists>xs ys. acc' = (fst acc @ xs, snd acc @ ys) \<and>
           map (\<lambda>r. pf (fields r ! 0)) (filter (\<lambda>r. strip r \<noteq> []) ls) = map Some xs \<and>
           map (\<lambda>r. pf (fields r ! 1)) (filter (\<lambda>r. strip r \<noteq> []) ls) = map Some ys"
  using assms
proof (induction ls arbitrary: acc)
  case Nil
  then show ?case by simp
next
  case (Cons l ls)
  from Cons.prems obtain acc1 where
    s1: "csv_row pf acc l = Inr acc1" and s2: "csv_rows pf acc1 ls = Inr acc'"
    by (auto split: sum.splits)
  from csv_row_values [OF s1] obtain xs1 ys1 where
    a1: "acc1 = (fst acc @ xs1, snd acc @ ys1)"
      "map (\<lambda>r. pf (fields r ! 0)) (filter (\<lambda>r. strip r \<noteq> []) [l]) = map Some xs1"
      "map (\<lambda>r. pf (fields r ! 1)) (filter (\<lambda>r. strip r \<noteq> []) [l]) = map Some ys1"
    by blast
  from Cons.IH [OF s2] obtain xs ys where
    a2: "acc' = (fst acc1 @ xs, snd acc1 @ ys)"
      "map (\<lambda>r. pf (fields r ! 0)) (filter (\<lambda>r. strip r \<noteq> []) ls) = map Some xs"
      "map (\<lambda>r. pf (fields r ! 1)) (filter (\<lambda>r. strip r \<noteq> []) ls) = map Some ys"
    by blast
  have split: "filter (\<lambda>r. strip r \<noteq> []) (l # ls) =
      filter (\<lambda>r. strip r \<noteq> []) [l] @ filter (\<lambda>r. strip r \<noteq> []) ls"
    by simp
  show ?case
    unfolding split map_append
    using a1 a2 by (intro exI [of _ "xs1 @ xs"] exI [of _ "ys1 @ ys"]) simp
qed

text \<open>
  Claim C9. Whenever \<open>from_csv\<close> returns a spectrum, its arrays \<open>x\<close> and \<open>y\<close> are the
  readings of the first and of the second field of the data rows of the file, in their
  order; there are at least two of them; \<open>firsty\<close> is the element of \<open>y\<close> at index 1 (the
  value of the second data row); \<open>npoints\<close> is the number of data rows, which is the
  length of the arrays; \<open>maxx\<close>, \<open>minx\<close>, \<open>maxy\<close> and \<open>miny\<close> are the greatest and least
  elements of \<open>x\<close> and of \<open>y\<close>; and \<open>firstx\<close> and \<open>lastx\<close> are the first and the last
  element of \<open>x\<close>.
\<close>

theorem from_csv_metadata:
  assumes "from_csv pf path name mf header_size file = Inr s"
  shows "\<exists>ys. map (\<lambda>r. pf (fields r ! 0)) (data_rows header_size file) = map Some (x_data s) \<and>
           map (\<lambda>r. pf (fields r ! 1)) (data_rows header_size file) = map Some ys \<and>
           y_data s = map Fin ys \<and> 2 \<le> length ys \<and> length (x_data s) = length ys \<and>
           firsty s = Some (ys ! 1) \<and>
           npoints s = Some (int (length (data_rows header_size file))) \<and>
           npoints s = Some (int (length (x_data s))) \<and>
           maxx s = Some (Max (set (x_data s))) \<and> minx s = Some (Min (set (x_data s))) \<and>
           maxy s = Some (Max (set ys)) \<and> miny s = Some (Min (set ys)) \<and>
           firstx s = Some (x_data s ! 0) \<and> lastx s = Some (last (x_data s))"
proof -
  from assms obtain acc where
    rows: "csv_rows pf ([], []) (drop (nat header_size) file) = Inr acc" and
    fin: "csv_finish path name mf acc = Inr s"
    by (auto simp: from_csv_def split: sum.splits)
  from csv_rows_values [OF rows] have
    vx: "map (\<lambda>r. pf (fields r ! 0)) (data_rows header_size file) = map Some (fst acc)" and
    vy: "map (\<lambda>r. pf (fields r ! 1)) (data_rows header_size file) = map Some (snd acc)"
    by (auto simp: data_rows_def)
  from vx have lx: "length (data_rows header_size file) = length (fst acc)"
    by (metis length_map)
  from vy have ly: "length (data_rows header_size file) = length (snd acc)"
    by (metis length_map)
  from csv_finish_fields [OF fin] vx vy lx ly show ?thesis
    by (intro exI [of _ "snd acc"]) simp
qed

text \<open>
  Claim C9 at a file of three data rows with the values 0.5, 1.5 and 9.5: \<open>firsty\<close> is
  1.5, the value of the second row, \<open>npoints\<close> is 3 and \<open>maxy\<close> is 9.5.
\<close>

theorem from_csv_metadata_witness:
  "from_csv dec_float ''data/sample/sample.csv'' None None 1 csv_three_rows = Inr three_row_spectrum \<and>
   data_rows 1 csv_three_rows = [''1.0,0.5'', ''2.0,1.5'', ''3.0,9.5''] \<and>
   x_data three_row_spectrum = [1, 2, 3] \<and>
   y_data three_row_spectrum = [Fin (1 / 2), Fin (3 / 2), Fin (19 / 2)] \<and>
   firsty three_row_spectrum = Some (3 / 2) \<and> npoints three_row_spectrum = Some 3 \<and>
   maxy three_row_spectrum = Some (19 / 2) \<and>
   (\<exists>ys. map (\<lambda>r. dec_float (fields r ! 1)) (data_rows 1 csv_three_rows) = map Some ys \<and>
      y_data three_row_spectrum = map Fin ys \<and> firsty three_row_spectrum = Some (ys ! 1) \<and>
      maxy three_row_spectrum = Some (Max (set ys)) \<and>
      npoints three_row_spectrum = Some (int (length (data_rows 1 csv_three_rows))))"
proof -
  have h: "from_csv dec_float ''data/sample/sample.csv'' None None 1 csv_three_rows =
      Inr three_row_spectrum"
    by code_simp
  have r: "data_rows 1 csv_three_rows = [''1.0,0.5'', ''2.0,1.5'', ''3.0,9.5'']"
    by code_simp
  from from_csv_metadata [OF h] obtain ys where
    ys: "map (\<lambda>r. dec_float (fields r ! 1)) (data_rows 1 csv_three_rows) = map Some ys"
      "y_data three_row_spectrum = map Fin ys" "firsty three_row_spectrum = Some (ys ! 1)"
      "maxy three_row_spectrum = Some (Max (set ys))"
      "npoints three_row_spectrum = Some (int (length (data_rows 1 csv_three_rows)))"
    by blast
  then have e: "\<exists>ys. map (\<lambda>r. dec_float (fields r ! 1)) (data_rows 1 csv_three_rows) = map Some ys \<and>
      y_data three_row_spectrum = map Fin ys \<and> firsty three_row_spectrum = Some (ys ! 1) \<and>
      maxy three_row_spectrum = Some (Max (set ys)) \<and>
      npoints three_row_spectrum = Some (int (length (data_rows 1 csv_three_rows)))"
    by blast
  from h r e show ?thesis by (simp add: three_row_spectrum_def)
qed

lemma csv_row_blank: "strip l = [] \<Longrightarrow> csv_row pf acc l = Inr acc"
  by (simp add: csv_row_def)

lemma csv_row_good:
  "strip l \<noteq> [] \<Longrightarrow> row_ok pf l \<Longrightarrow>
   \<exists>xv yv. pf (fields l ! 0) = Some xv \<and> pf (fields l ! 1) = Some yv \<and>
     csv_row pf acc l = Inr (fst acc @ [xv], snd acc @ [yv])"
  by (auto simp: csv_row_def row_ok_def fields_def Let_def)

lemma csv_row_bad:
  "strip l \<noteq> [] \<Longrightarrow> \<not> row_ok pf l \<Longrightarrow> csv_row pf acc l = Inl (row_error l)"
  by (auto simp: csv_row_def row_ok_def row_error_def fields_def Let_def split: option.splits)

lemma csv_rows_append:
  "csv_rows pf acc (pre @ post) =
     (case csv_rows pf acc pre of Inl e \<Rightarrow> Inl e | Inr acc' \<Rightarrow> csv_rows pf acc' post)"
  by (induction pre arbitrary: acc) (auto split: sum.splits)

lemma csv_rows_good:
  "list_all (row_ok pf) (filter (\<lambda>r. strip r \<noteq> []) ls) \<Longrightarrow>
   \<exists>xs ys. csv_rows pf acc ls = Inr (fst acc @ xs, snd acc @ ys) \<and>
     length xs = length (filter (\<lambda>r. strip r \<noteq> []) ls) \<and>
     length ys = length (filter (\<lambda>r. strip r \<noteq> []) ls)"
proof (induction ls arbitrary: acc)
  case Nil
  then show ?case by simp
next
  case (Cons l ls)
  show ?case
  proof (cases "strip l = []")
    case True
    with Cons show ?thesis by (simp add: csv_row_blank)
  next
    case False
    with Cons.prems have ok: "row_ok pf l"
      and rest: "list_all (row_ok pf) (filter (\<lambda>r. strip r \<noteq> []) ls)"
      by simp_all
    from csv_row_good [OF False ok] obtain xv yv where
      step: "csv_row pf acc l = Inr (fst acc @ [xv], snd acc @ [yv])" by blast
    from Cons.IH [OF rest, of "(fst acc @ [xv], snd acc @ [yv])"] obtain xs ys where
      "csv_rows pf (fst acc @ [xv], snd acc @ [yv]) ls = Inr (fst acc @ [xv] @ xs, snd acc @ [yv] @ ys)"
      "length xs = length (filter (\<lambda>r. strip r \<noteq> []) ls)"
      "length ys = length (filter (\<lambda>r. strip r \<noteq> []) ls)"
      by auto
    with step False show ?thesis
      by (intro exI [of _ "xv # xs"] exI [of _ "yv # ys"]) simp
  qed
qed

lemma csv_rows_count:
  "csv_rows pf acc ls = Inr acc' \<Longrightarrow>
   length (fst acc') = length (fst acc) + length (filter (\<lambda>r. strip r \<noteq> []) ls)"
proof (induction ls arbitrary: acc)
  case Nil
  then show ?case by simp
next
  case (Cons l ls)
  from Cons.prems obtain acc1 where
    s1: "csv_row pf acc l = Inr acc1" and s2: "csv_rows pf acc1 ls = Inr acc'"
    by (auto split: sum.splits)
  from s1 have "length (fst acc1) = length (fst acc) + (if strip l = [] then 0 else 1)"
    by (auto simp: csv_row_def Let_def split: if_splits option.splits)
  with Cons.IH [OF s2] show ?case by simp
qed

text \<open>
  Claim C8, as the code has it. Take the first row after the header that is neither blank
  nor accepted so far: when it has fewer than two fields, or its first or second field is
  not a number, the load stops with an exception whose message ends with the stripped
  row; when it has two fields or more and the first two are numbers, the loop goes on
  with the two numbers appended, whatever stands in its other fields.
\<close>

theorem csv_row_rejected_iff:
  assumes "drop (nat header_size) file = pre @ l # post"
    and "list_all (row_ok pf) (filter (\<lambda>r. strip r \<noteq> []) pre)"
    and "strip l \<noteq> []"
  shows "(\<not> row_ok pf l \<longrightarrow>
            from_csv pf path name mf header_size file = Inl (row_error l)) \<and>
         (row_ok pf l \<longrightarrow>
            (\<exists>xs ys xv yv. pf (fields l ! 0) = Some xv \<and> pf (fields l ! 1) = Some yv \<and>
               csv_rows pf ([], []) (pre @ [l]) = Inr (xs @ [xv], ys @ [yv])))"
proof -
  from csv_rows_good [OF assms(2), of "([], [])"] obtain xs ys where
    pre: "csv_rows pf ([], []) pre = Inr (xs, ys)" by auto
  show ?thesis
  proof (cases "row_ok pf l")
    case True
    from csv_row_good [OF assms(3) True, of "(xs, ys)"] pre True show ?thesis
      by (auto simp: csv_rows_append)
  next
    case False
    from csv_row_bad [OF assms(3) False, of "(xs, ys)"] pre False assms(1) show ?thesis
      by (simp add: from_csv_def csv_rows_append)
  qed
qed

text \<open>
  Claim C8 at two rows: \<^verbatim>\<open>2.0;1.5\<close> has one field and stops the load; \<^verbatim>\<open>1.0,0.5,junk\<close>
  has three and contributes its first two.
\<close>

theorem csv_row_rejected_iff_witness:
  "from_csv dec_float ''s.csv'' None None 1 csv_short_row =
     Inl (ValueError ''Invalid CSV row (expected 2 columns): 2.0;1.5'') \<and>
   (\<exists>xs ys xv yv. dec_float (fields ''1.0,0.5,junk'' ! 0) = Some xv \<and>
      dec_float (fields ''1.0,0.5,junk'' ! 1) = Some yv \<and>
      csv_rows dec_float ([], []) ([] @ [''1.0,0.5,junk'']) = Inr (xs @ [xv], ys @ [yv]))"
proof -
  have d1: "drop (nat 1) csv_short_row = [''1.0,0.5'', []] @ ''  2.0;1.5  '' # [''3.0,2.5'']"
    by (simp add: csv_short_row_def)
  have p1: "list_all (row_ok dec_float) (filter (\<lambda>r. strip r \<noteq> []) [''1.0,0.5'', []])"
    by code_simp
  have n1: "strip ''  2.0;1.5  '' \<noteq> []"
    by code_simp
  have b1: "\<not> row_ok dec_float ''  2.0;1.5  ''"
    by code_simp
  have e1: "row_error ''  2.0;1.5  '' = ValueError ''Invalid CSV row (expected 2 columns): 2.0;1.5''"
    by code_simp
  have d2: "drop (nat 1) csv_extra_fields = [] @ ''1.0,0.5,junk'' # [''2.0,1.5,7,8'']"
    by (simp add: csv_extra_fields_def)
  have p2: "list_all (row_ok dec_float) (filter (\<lambda>r. strip r \<noteq> []) [])"
    by simp
  have n2: "strip ''1.0,0.5,junk'' \<noteq> []"
    by code_simp
  have g2: "row_ok dec_float ''1.0,0.5,junk''"
    by code_simp
  from csv_row_rejected_iff [OF d1 p1 n1, of "''s.csv''" None None]
       csv_row_rejected_iff [OF d2 p2 n2, of "''s.csv''" None None]
  show ?thesis using b1 e1 g2 by simp
qed

text \<open>
  Claim C8 as it is written fails: the rows \<^verbatim>\<open>1.0,0.5,junk\<close> and \<^verbatim>\<open>2.0,1.5,7,8\<close> have
  three and four fields, and the file loads as the spectrum of the rows \<^verbatim>\<open>1.0,0.5\<close> and
  \<^verbatim>\<open>2.0,1.5\<close>.
\<close>

theorem csv_three_fields_accepted:
  "length (fields ''1.0,0.5,junk'') = 3 \<and> length (fields ''2.0,1.5,7,8'') = 4 \<and>
   from_csv dec_float ''data/sample/sample.csv'' None None 1 csv_extra_fields = Inr csv_spectrum"
  by code_simp

lemma csv_rows_of_file:
  assumes "list_all (row_ok pf) (data_rows header_size file)"
  shows "\<exists>xs ys. csv_rows pf ([], []) (drop (nat header_size) file) = Inr (xs, ys) \<and>
           length xs = length (data_rows header_size file) \<and>
           length ys = length (data_rows header_size file)"
  using csv_rows_good [of pf "drop (nat header_size) file" "([], [])"] assms
  by (simp add: data_rows_def)

text \<open>
  Claim C10. A load that returns a spectrum had at least two data rows. For a file whose
  data rows are all well-formed: without any data row the load stops with the
  \<^verbatim>\<open>ValueError\<close> of \<^verbatim>\<open>max\<close> on an empty list, with exactly one data row it stops with
  the \<^verbatim>\<open>IndexError\<close> of \<^verbatim>\<open>y_vals[1]\<close>, and with two or more it returns a spectrum.
  Neither exception is one of the two the loop over the rows raises.
\<close>

theorem from_csv_needs_two_rows:
  "(\<forall>s. from_csv pf path name mf header_size file = Inr s \<longrightarrow>
        2 \<le> length (data_rows header_size file)) \<and>
   (list_all (row_ok pf) (data_rows header_size file) \<longrightarrow>
      (data_rows header_size file = [] \<longrightarrow>
         from_csv pf path name mf header_size file =
           Inl (ValueError ''max() arg is an empty sequence'')) \<and>
      (length (data_rows header_size file) = 1 \<longrightarrow>
         from_csv pf path name mf header_size file =
           Inl (IndexError ''list index out of range'')) \<and>
      (2 \<le> length (data_rows header_size file) \<longrightarrow>
         (\<exists>s. from_csv pf path name mf header_size file = Inr s))) \<and>
   (\<forall>raw. row_error raw \<noteq> ValueError ''max() arg is an empty sequence'' \<and>
          row_error raw \<noteq> IndexError ''list index out of range'')"
proof (intro conjI allI impI)
  fix raw
  show "row_error raw \<noteq> ValueError ''max() arg is an empty sequence''"
    by (simp add: row_error_def)
  show "row_error raw \<noteq> IndexError ''list index out of range''"
    by (simp add: row_error_def)
next
  fix s
  assume ok: "from_csv pf path name mf header_size file = Inr s"
  then obtain acc where
    rows: "csv_rows pf ([], []) (drop (nat header_size) file) = Inr acc" and
    fin: "csv_finish path name mf acc = Inr s"
    by (auto simp: from_csv_def split: sum.splits)
  from csv_rows_lengths [OF rows] have "length (fst acc) = length (snd acc)" by simp
  moreover from csv_finish_fields [OF fin] have "2 \<le> length (snd acc)" by simp
  moreover from csv_rows_count [OF rows]
  have "length (fst acc) = length (data_rows header_size file)"
    by (simp add: data_rows_def)
  ultimately show "2 \<le> length (data_rows header_size file)" by simp
next
  assume wf: "list_all (row_ok pf) (data_rows header_size file)"
    and "data_rows header_size file = []"
  with csv_rows_of_file [OF wf]
  show "from_csv pf path name mf header_size file = Inl (ValueError ''max() arg is an empty sequence'')"
    by (auto simp: from_csv_def csv_finish_def py_max_def)
next
  assume wf: "list_all (row_ok pf) (data_rows header_size file)"
    and one: "length (data_rows header_size file) = 1"
  from csv_rows_of_file [OF wf] one obtain xv yv where
    "csv_rows pf ([], []) (drop (nat header_size) file) = Inr ([xv], [yv])"
    by (auto simp: length_Suc_conv)
  then show "from_csv pf path name mf header_size file = Inl (IndexError ''list index out of range'')"
    by (simp add: from_csv_def csv_finish_def py_max_def py_min_def py_index_def)
next
  assume wf: "list_all (row_ok pf) (data_rows header_size file)"
    and two: "2 \<le> length (data_rows header_size file)"
  from csv_rows_of_file [OF wf] obtain xs ys where
    rows: "csv_rows pf ([], []) (drop (nat header_size) file) = Inr (xs, ys)" and
    lx: "length xs = length (data_rows header_size file)" and
    ly: "length ys = length (data_rows header_size file)"
    by blast
  from lx ly two obtain xv xw xr yv yw yr where "xs = xv # xw # xr" "ys = yv # yw # yr"
    by (cases xs; cases ys; cases "tl xs"; cases "tl ys") auto
  with rows show "\<exists>s. from_csv pf path name mf header_size file = Inr s"
    by (simp add: from_csv_def csv_finish_def py_max_def py_min_def py_index_def Let_def)
qed

text \<open>Claim C10 at a file without data rows, with one, and with two.\<close>

theorem from_csv_needs_two_rows_witness:
  "data_rows 1 csv_no_rows = [] \<and>
   from_csv dec_float ''s.csv'' None None 1 csv_no_rows =
     Inl (ValueError ''max() arg is an empty sequence'') \<and>
   length (data_rows 1 csv_one_row) = 1 \<and>
   from_csv dec_float ''s.csv'' None None 1 csv_one_row =
     Inl (IndexError ''list index out of range'') \<and>
   2 \<le> length (data_rows 1 csv_example) \<and>
   (\<exists>s. from_csv dec_float ''s.csv'' None None 1 csv_example = Inr s)"
proof -
  have w0: "list_all (row_ok dec_float) (data_rows 1 csv_no_rows)" by code_simp
  have w1: "list_all (row_ok dec_float) (data_rows 1 csv_one_row)" by code_simp
  have w2: "list_all (row_ok dec_float) (data_rows 1 csv_example)" by code_simp
  have r0: "data_rows 1 csv_no_rows = []" by code_simp
  have r1: "length (data_rows 1 csv_one_row) = 1" by code_simp
  have r2: "2 \<le> length (data_rows 1 csv_example)" by code_simp
  from from_csv_needs_two_rows [of dec_float "''s.csv''" None None 1 csv_no_rows]
       from_csv_needs_two_rows [of dec_float "''s.csv''" None None 1 csv_one_row]
       from_csv_needs_two_rows [of dec_float "''s.csv''" None None 1 csv_example]
  show ?thesis using w0 w1 w2 r0 r1 r2 by blast
qed

section \<open>Absorbance\<close>

text \<open>
  Claim C4, at a spectrum whose unit is \<^verbatim>\<open>MICRONS\<close>: the accessor raises the
  unsupported-unit error, and the conversion returns with the spectrum unchanged.
\<close>

theorem convert_to_absorbance_silent:
  "convert_to_absorbance micron_spectrum = Inr micron_spectrum \<and>
   get_y_absorbance micron_spectrum = Inl (ValueError ''Unsupported Y unit type: MICRONS in probe'')"
proof -
  have u: "upper (strip ''MICRONS'') = ''MICRONS''"
    by code_simp
  show ?thesis
    by (simp add: convert_to_absorbance_def get_y_absorbance_def micron_spectrum_def
          new_spectrum_def str_of_opt_def u)
qed

lemma upper_strip_ABSORBANCE: "upper (strip ''ABSORBANCE'') = ''ABSORBANCE''"
  by code_simp

text \<open>
  Claim C7. For a spectrum whose unit is absorbance or transmittance (after stripping and
  upper-casing), the conversion returns a spectrum whose unit is absorbance, and the
  conversion of that spectrum returns it unchanged.
\<close>

theorem convert_to_absorbance_idempotent:
  assumes "yunits s = Some u"
    and "upper (strip u) = ''ABSORBANCE'' \<or> upper (strip u) = ''TRANSMITTANCE''"
  shows "\<exists>s1 u1. convert_to_absorbance s = Inr s1 \<and> convert_to_absorbance s1 = Inr s1 \<and>
           yunits s1 = Some u1 \<and> upper (strip u1) = ''ABSORBANCE''"
  using assms upper_strip_ABSORBANCE by (auto simp: convert_to_absorbance_def)

text \<open>Claim C7 at a spectrum in transmittance.\<close>

theorem convert_to_absorbance_idempotent_witness:
  "yunits transmittance_spectrum = Some '' Transmittance '' \<and>
   upper (strip '' Transmittance '') = ''TRANSMITTANCE'' \<and>
   (\<exists>s1 u1. convert_to_absorbance transmittance_spectrum = Inr s1 \<and>
      convert_to_absorbance s1 = Inr s1 \<and> yunits s1 = Some u1 \<and> upper (strip u1) = ''ABSORBANCE'')"
proof -
  have a: "yunits transmittance_spectrum = Some '' Transmittance ''"
    by (simp add: transmittance_spectrum_def)
  have b: "upper (strip '' Transmittance '') = ''TRANSMITTANCE''"
    by code_simp
  from convert_to_absorbance_idempotent [OF a disjI2 [OF b]] show ?thesis using a b by simp
qed

section \<open>Grid interpolation\<close>

lemma interp1_outside:
  assumes "xp \<noteq> []" and "v < Min (set xp) \<or> Max (set xp) < v"
  shows "interp1 xp fp (Fin 0) (Fin 0) v = Fin 0"
proof -
  have "Min (set xp) \<le> hd xp" "last xp \<le> Max (set xp)"
    using assms(1) by simp_all
  with assms(2) have "v < hd xp \<or> last xp < v" by linarith
  moreover have "length xp = 1 \<Longrightarrow> xp ! 0 = hd xp \<and> last xp = hd xp"
    by (cases xp) auto
  ultimately show ?thesis
    by (auto simp: interp1_def)
qed

lemma descending_ends:
  assumes "sorted_wrt (>) (xp :: real list)" and "2 \<le> length xp"
  shows "last xp < hd xp"
proof -
  from assms(2) obtain a b r where xp: "xp = a # b # r"
    by (cases xp; cases "tl xp") auto
  have "last (b # r) \<in> set (b # r)" by (rule last_in_set) simp
  with assms(1) xp show ?thesis by auto
qed

lemma interp1_descending:
  assumes "sorted_wrt (>) xp" and "2 \<le> length xp"
  shows "interp1 xp fp (Fin 0) (Fin 0) v = Fin 0"
  using descending_ends [OF assms] assms(2) by (auto simp: interp1_def)

lemma interval_index_le: "interval_index v xp \<le> length xp - 1"
  unfolding interval_index_def
  by (metis length_takeWhile_le length_tl)

lemma interval_index_lower:
  assumes "xp \<noteq> []" and "hd xp \<le> v"
  shows "xp ! interval_index v xp \<le> v"
proof (cases "interval_index v xp")
  case 0
  with assms show ?thesis by (simp add: hd_conv_nth)
next
  case (Suc k)
  then have k: "k < length (takeWhile (\<lambda>a. a \<le> v) (tl xp))"
    by (simp add: interval_index_def)
  then have "takeWhile (\<lambda>a. a \<le> v) (tl xp) ! k \<in> set (takeWhile (\<lambda>a. a \<le> v) (tl xp))"
    by (rule nth_mem)
  then have "takeWhile (\<lambda>a. a \<le> v) (tl xp) ! k \<le> v"
    by (auto dest: set_takeWhileD)
  moreover have "takeWhile (\<lambda>a. a \<le> v) (tl xp) ! k = tl xp ! k"
    using k by (rule takeWhile_nth)
  moreover have "k < length (tl xp)"
    using k length_takeWhile_le [of "\<lambda>a. a \<le> v" "tl xp"] by linarith
  then have "tl xp ! k = xp ! Suc k" by (rule nth_tl)
  ultimately show ?thesis using Suc by simp
qed

lemma interval_index_upper:
  assumes "interval_index v xp < length xp - 1"
  shows "v < xp ! (interval_index v xp + 1)"
proof -
  from assms have lt: "length (takeWhile (\<lambda>a. a \<le> v) (tl xp)) < length (tl xp)"
    by (simp add: interval_index_def)
  then have "\<not> (tl xp ! length (takeWhile (\<lambda>a. a \<le> v) (tl xp)) \<le> v)"
    by (rule nth_length_takeWhile)
  moreover have "tl xp ! length (takeWhile (\<lambda>a. a \<le> v) (tl xp)) =
      xp ! Suc (length (takeWhile (\<lambda>a. a \<le> v) (tl xp)))"
    using lt by (rule nth_tl)
  ultimately show ?thesis by (simp add: interval_index_def)
qed

lemma piecewise_linearI:
  "j < length xp - 1 \<Longrightarrow> on_segment xp fp v r j \<Longrightarrow> piecewise_linear xp fp v r"
  by (auto simp: piecewise_linear_def list_ex_iff)

lemma interp_segment_finite:
  assumes "j + 1 < length fr" and "xp ! (j + 1) \<noteq> xp ! j"
  shows "interp_segment xp (map Fin fr) v j =
           Fin ((fr ! (j + 1) - fr ! j) / (xp ! (j + 1) - xp ! j) * (v - xp ! j) + fr ! j)"
  using assms by (simp add: interp_segment_def fsub_def Let_def)

lemma interp1_inside:
  assumes asc: "sorted_wrt (<) xp" and ne: "xp \<noteq> []" and len: "length fr = length xp"
    and lo: "hd xp \<le> v" and hi: "v \<le> last xp"
  shows "\<exists>r. interp1 xp (map Fin fr) left right v = Fin r \<and> piecewise_linear xp fr v r"
proof (cases "length xp = 1")
  case True
  then obtain a where "xp = [a]" by (cases xp) auto
  with lo hi len show ?thesis
    by (simp add: interp1_def piecewise_linear_def)
next
  case False
  with ne have two: "2 \<le> length xp" by (cases xp; cases "tl xp") auto
  define j where "j = interval_index v xp"
  have jle: "j \<le> length xp - 1" unfolding j_def by (rule interval_index_le)
  have low: "xp ! j \<le> v" unfolding j_def using ne lo by (rule interval_index_lower)
  have val: "interp1 xp (map Fin fr) left right v =
      (if j = length xp - 1 then map Fin fr ! j
       else if xp ! j = v then map Fin fr ! j
       else interp_segment xp (map Fin fr) v j)"
    using False lo hi by (simp add: interp1_def j_def Let_def)
  show ?thesis
  proof (cases "j = length xp - 1")
    case True
    with low hi ne have veq: "v = xp ! j" by (simp add: last_conv_nth)
    from True two have j1: "j - 1 < length xp - 1" "j - 1 + 1 = j" "j - 1 < j" "j < length xp"
      by simp_all
    from asc j1 have "xp ! (j - 1) < xp ! j"
      by (simp add: sorted_wrt_iff_nth_less)
    then have "on_segment xp fr v (fr ! j) (j - 1)"
      using veq j1 by (simp add: on_segment_def)
    with j1(1) have "piecewise_linear xp fr v (fr ! j)" by (rule piecewise_linearI)
    moreover from True val j1(4) len have "interp1 xp (map Fin fr) left right v = Fin (fr ! j)"
      by simp
    ultimately show ?thesis by blast
  next
    case False
    with jle have jlt: "j < length xp - 1" by simp
    then have up: "v < xp ! (j + 1)"
      unfolding j_def by (rule interval_index_upper)
    from jlt len have jin: "j + 1 < length fr" "j < length fr" by simp_all
    from low up have ne': "xp ! (j + 1) \<noteq> xp ! j" by simp
    define r where "r = (if xp ! j = v then fr ! j
       else (fr ! (j + 1) - fr ! j) / (xp ! (j + 1) - xp ! j) * (v - xp ! j) + fr ! j)"
    have "interp1 xp (map Fin fr) left right v = Fin r"
      using val False jin interp_segment_finite [OF jin(1) ne'] by (simp add: r_def)
    moreover have "on_segment xp fr v r j"
      using low up by (simp add: on_segment_def r_def)
    then have "piecewise_linear xp fr v r" using jlt by (intro piecewise_linearI)
    ultimately show ?thesis by blast
  qed
qed

text \<open>
  For a reference with finite values, a supported unit and arrays of one length that are
  not empty, the interpolation returns one value for each grid point; the value is 0 at a
  grid point below the least or above the greatest abscissa of the reference; and when
  the abscissae are strictly ascending, the value at a grid point between the first and
  the last abscissa is the piecewise-linear interpolant.
\<close>

lemma interpolate_to_ascending:
  assumes "get_y_absorbance ref = Inr (map Fin fr)" and "x_data ref \<noteq> []"
    and "length fr = length (x_data ref)"
  shows "\<exists>out. interpolate_to sample_x ref = Inr out \<and> length out = length sample_x \<and>
           (\<forall>i < length sample_x.
              (sample_x ! i < Min (set (x_data ref)) \<or> Max (set (x_data ref)) < sample_x ! i
                 \<longrightarrow> out ! i = Fin 0) \<and>
              (sorted_wrt (<) (x_data ref) \<and> hd (x_data ref) \<le> sample_x ! i \<and>
               sample_x ! i \<le> last (x_data ref)
                 \<longrightarrow> (\<exists>r. out ! i = Fin r \<and> piecewise_linear (x_data ref) fr (sample_x ! i) r)))"
proof -
  from assms have
    "interpolate_to sample_x ref =
       Inr (map (interp1 (x_data ref) (map Fin fr) (Fin 0) (Fin 0)) sample_x)"
    by (simp add: interpolate_to_def np_interp_def)
  then show ?thesis
    using interp1_outside [OF assms(2)] interp1_inside [OF _ assms(2,3)]
    by simp
qed

text \<open>
  Claim C5, at a reference whose abscissae descend. The file with the step \<open>-1\<close> loads
  with the abscissae 3, 2, 1 and the values 10, 20, 30. The grid points 2 and 2.5 lie
  inside its range, where the piecewise-linear interpolant of the samples takes the
  values 20 and 15 and no other; the interpolation returns 0 at both, since every point
  is above the last abscissa. With the same samples in ascending order it returns 20 and
  15.
\<close>

theorem descending_reference_interpolates_to_zero:
  "from_jdx config_py dec_float dec_int ''co2.jdx'' jdx_descending = Inr descending_reference \<and>
   x_data descending_reference = [3, 2, 1] \<and>
   get_y_absorbance descending_reference = Inr [Fin 10, Fin 20, Fin 30] \<and>
   interpolate_to [2, 5 / 2] descending_reference = Inr [Fin 0, Fin 0] \<and>
   piecewise_linear [3, 2, 1] [10, 20, 30] 2 20 \<and>
   \<not> piecewise_linear [3, 2, 1] [10, 20, 30] 2 0 \<and>
   piecewise_linear [3, 2, 1] [10, 20, 30] (5 / 2) 15 \<and>
   \<not> piecewise_linear [3, 2, 1] [10, 20, 30] (5 / 2) 0 \<and>
   interpolate_to [2, 5 / 2] ascending_reference = Inr [Fin 20, Fin 15]"
proof -
  have a: "from_jdx config_py dec_float dec_int ''co2.jdx'' jdx_descending = Inr descending_reference"
    by code_simp
  have x: "x_data descending_reference = [3, 2, 1]"
    by (simp add: descending_reference_def)
  have g: "get_y_absorbance descending_reference = Inr [Fin 10, Fin 20, Fin 30]"
    by (simp add: get_y_absorbance_def descending_reference_def new_spectrum_def
          upper_strip_ABSORBANCE)
  have b: "interpolate_to [2, 5 / 2] descending_reference = Inr [Fin 0, Fin 0]"
    by (simp add: interpolate_to_def g x np_interp_def interp1_def)
  have c: "piecewise_linear [3, 2, 1] [10, 20, 30] 2 20 \<and>
   \<not> piecewise_linear [3, 2, 1] [10, 20, 30] 2 0 \<and>
   piecewise_linear [3, 2, 1] [10, 20, 30] (5 / 2) 15 \<and>
   \<not> piecewise_linear [3, 2, 1] [10, 20, 30] (5 / 2) 0"
    by code_simp
  have g': "get_y_absorbance ascending_reference = Inr [Fin 30, Fin 20, Fin 10]"
    by (simp add: get_y_absorbance_def ascending_reference_def new_spectrum_def
          upper_strip_ABSORBANCE)
  have x': "x_data ascending_reference = [1, 2, 3]"
    by (simp add: ascending_reference_def)
  have d: "interpolate_to [2, 5 / 2] ascending_reference = Inr [Fin 20, Fin 15]"
    by (simp add: interpolate_to_def g' x' np_interp_def interp1_def interval_index_def
          interp_segment_def fsub_def)
  from a x g b c d show ?thesis by simp
qed

section \<open>The analysis\<close>

lemma map_err_Inr_elem:
  "map_err f as = Inr bs \<Longrightarrow> b \<in> set bs \<Longrightarrow> \<exists>a \<in> set as. f a = Inr b"
  by (induction as arbitrary: bs) (auto split: sum.splits)

lemma set_insert_desc: "set (insert_desc p qs) = insert p (set qs)"
  by (induction qs) auto

lemma set_sort_desc: "set (sort_desc ps) = set ps"
  by (induction ps) (simp_all add: sort_desc_def set_insert_desc)

lemma fmaximum_zero: "fmaximum v (Fin 0) = NaN \<or> fle (Fin 0) (fmaximum v (Fin 0))"
  by (cases v) (auto simp: fmaximum_def fle_def)

lemma fmaximum_NaN: "fmaximum v (Fin 0) = NaN \<Longrightarrow> v = NaN"
  by (cases v) (auto simp: fmaximum_def split: if_splits)

lemma clip0_values: "v \<in> set (clip0 m) \<Longrightarrow> v = NaN \<or> fle (Fin 0) v"
  using fmaximum_zero by (auto simp: clip0_def)

lemma clip0_NaN: "NaN \<in> set (clip0 m) \<Longrightarrow> NaN \<in> set m"
proof -
  assume "NaN \<in> set (clip0 m)"
  then obtain v where "v \<in> set m" "fmaximum v (Fin 0) = NaN"
    by (auto simp: clip0_def)
  with fmaximum_NaN [of v] show ?thesis by simp
qed

lemma solve_multipliers_result:
  assumes "solve_multipliers cfg lstsq ref_data s = Inr mr"
  shows "\<exists>cols ya sol. lstsq cols ya = Inr sol \<and>
           fst mr = (if clamp_negative_multipliers cfg then clip0 (fst sol) else fst sol)"
proof -
  from assms obtain cols ya sol where
    "lstsq cols ya = Inr sol"
    "fst mr = (if clamp_negative_multipliers cfg then clip0 (fst sol) else fst sol)"
    by (fastforce simp: solve_multipliers_def Let_def split: sum.splits if_splits)
  then show ?thesis by blast
qed

lemma analyze_sample_result:
  assumes "analyze_sample cfg lstsq ref_data s0 = Inr r"
  shows "(ref_multiplier cfg = None \<longrightarrow>
            (\<exists>s mr. solve_multipliers cfg lstsq ref_data s = Inr mr \<and> fit_multiplier r = fst mr)) \<and>
         (\<forall>m. ref_multiplier cfg = Some m \<longrightarrow> fit_multiplier r = map Fin m \<and> fit_r2 r = None) \<and>
         fit_pairs r = sort_desc (zip ref_data (fit_multiplier r))"
proof -
  from assms obtain s mr where
    mr: "(case ref_multiplier cfg of None \<Rightarrow> solve_multipliers cfg lstsq ref_data s
          | Some m \<Rightarrow> Inr (map Fin m, None)) = Inr mr"
    and r: "fit_multiplier r = fst mr" "fit_r2 r = snd mr"
      "fit_pairs r = sort_desc (zip ref_data (fst mr))"
    by (fastforce simp: analyze_sample_def Let_def split: sum.splits if_splits)
  show ?thesis
  proof (cases "ref_multiplier cfg")
    case None
    with mr have "solve_multipliers cfg lstsq ref_data s = Inr mr" by simp
    with r None show ?thesis
      by (auto intro!: exI [of _ s] exI [of _ "snd mr"])
  next
    case (Some m)
    with mr r show ?thesis by auto
  qed
qed

text \<open>
  Claim C6, as the code has it. For every fit of a run of \<open>analyze_spectrum\<close> that
  returns: in solve mode the multipliers are the solver's solution, clipped when the
  setting is on and as the solver returned it otherwise; with the setting on, every
  multiplier of the fit and of its pairs is NaN or at least 0, and all of them are at
  least 0 when the solver's solution holds no NaN; in manual mode the multipliers are the
  configured list, whatever the setting, and no \<open>r2\<close> is computed.
\<close>

theorem clamping_in_solve_mode_only:
  assumes "analyze_spectrum cfg pf pint lstsq ref_files samples = Inr fits" and "r \<in> set fits"
  shows "(ref_multiplier cfg = None \<longrightarrow>
            (\<exists>cols ya sol. lstsq cols ya = Inr sol \<and>
               fit_multiplier r =
                 (if clamp_negative_multipliers cfg then clip0 (fst sol) else fst sol) \<and>
               (clamp_negative_multipliers cfg \<and> NaN \<notin> set (fst sol) \<longrightarrow>
                  (\<forall>v \<in> set (fit_multiplier r). fle (Fin 0) v) \<and>
                  (\<forall>p \<in> set (fit_pairs r). fle (Fin 0) (snd p)))) \<and>
            (clamp_negative_multipliers cfg \<longrightarrow>
               (\<forall>v \<in> set (fit_multiplier r). v = NaN \<or> fle (Fin 0) v) \<and>
               (\<forall>p \<in> set (fit_pairs r). snd p = NaN \<or> fle (Fin 0) (snd p)))) \<and>
         (\<forall>m. ref_multiplier cfg = Some m \<longrightarrow> fit_multiplier r = map Fin m \<and> fit_r2 r = None)"
proof -
  from assms(1) obtain refs where
    "map_err (analyze_sample cfg lstsq refs) samples = Inr fits"
    by (auto simp: analyze_spectrum_def split: sum.splits)
  from map_err_Inr_elem [OF this assms(2)] obtain s0 where
    one: "analyze_sample cfg lstsq refs s0 = Inr r" by blast
  note res = analyze_sample_result [OF one]
  have pairs: "\<forall>p \<in> set (fit_pairs r). snd p \<in> set (fit_multiplier r)"
    using res by (auto simp: set_sort_desc dest: set_zip_rightD)
  show ?thesis
  proof (cases "ref_multiplier cfg")
    case None
    with res obtain s mr where
      "solve_multipliers cfg lstsq refs s = Inr mr" "fit_multiplier r = fst mr" by blast
    with solve_multipliers_result [of cfg lstsq refs s mr] obtain cols ya sol where
      sol: "lstsq cols ya = Inr sol"
        "fit_multiplier r = (if clamp_negative_multipliers cfg then clip0 (fst sol) else fst sol)"
      by auto
    have all: "clamp_negative_multipliers cfg \<Longrightarrow>
        \<forall>v \<in> set (fit_multiplier r). v = NaN \<or> fle (Fin 0) v"
      using sol(2) by (auto dest: clip0_values)
    have fin: "clamp_negative_multipliers cfg \<Longrightarrow> NaN \<notin> set (fst sol) \<Longrightarrow>
        \<forall>v \<in> set (fit_multiplier r). fle (Fin 0) v"
      using sol(2) clip0_values [of _ "fst sol"] clip0_NaN [of "fst sol"] by auto
    from all pairs have allp: "clamp_negative_multipliers cfg \<Longrightarrow>
        \<forall>p \<in> set (fit_pairs r). snd p = NaN \<or> fle (Fin 0) (snd p)"
      by blast
    from fin pairs have finp: "clamp_negative_multipliers cfg \<Longrightarrow> NaN \<notin> set (fst sol) \<Longrightarrow>
        \<forall>p \<in> set (fit_pairs r). fle (Fin 0) (snd p)"
      by blast
    have "\<exists>cols ya sol. lstsq cols ya = Inr sol \<and>
               fit_multiplier r =
                 (if clamp_negative_multipliers cfg then clip0 (fst sol) else fst sol) \<and>
               (clamp_negative_multipliers cfg \<and> NaN \<notin> set (fst sol) \<longrightarrow>
                  (\<forall>v \<in> set (fit_multiplier r). fle (Fin 0) v) \<and>
                  (\<forall>p \<in> set (fit_pairs r). fle (Fin 0) (snd p)))"
      using sol fin finp by blast
    with all allp None show ?thesis by simp
  next
    case (Some m)
    with res show ?thesis by simp
  qed
qed

lemma load_water:
  "from_jdx config_py dec_float dec_int ''data/reference/water.jdx'' jdx_example =
     Inr water_spectrum"
  by code_simp

lemma water_absorbance:
  "get_y_absorbance water_spectrum = Inr [Fin (1 / 10), Fin (1 / 5), Fin (3 / 10)]"
  by (simp add: get_y_absorbance_def water_spectrum_def new_spectrum_def upper_strip_ABSORBANCE)

lemma water_grid: "x_data water_spectrum = [1, 2, 3]"
  by (simp add: water_spectrum_def)

lemma water_on_grid: "interpolate_to [1, 2] water_spectrum = Inr [Fin (1 / 10), Fin (1 / 5)]"
  by (simp add: interpolate_to_def water_absorbance water_grid np_interp_def interp1_def
        interval_index_def)

lemma water_on_flat_grid: "interpolate_to [1, 1] water_spectrum = Inr [Fin (1 / 10), Fin (1 / 10)]"
  by (simp add: interpolate_to_def water_absorbance water_grid np_interp_def interp1_def
        interval_index_def)

lemma from_jdx_required:
  "required_fields_in_jdx cfg = required_fields_in_jdx cfg' \<Longrightarrow>
   from_jdx cfg pf pint path file = from_jdx cfg' pf pint path file"
  by (simp add: from_jdx_def split: sum.splits)

lemma get_references_required:
  assumes "required_fields_in_jdx cfg = required_fields_in_jdx cfg'"
  shows "get_references cfg pf pint ref_files = get_references cfg' pf pint ref_files"
proof -
  have "(\<lambda>f. from_jdx cfg pf pint (fst f) (snd f)) = (\<lambda>f. from_jdx cfg' pf pint (fst f) (snd f))"
    using from_jdx_required [OF assms] by auto
  then show ?thesis by (simp add: get_references_def)
qed

lemma references_loaded:
  "get_references config_py dec_float dec_int reference_dir = Inr [water_spectrum]"
  using load_water by (simp add: get_references_def reference_dir_def)

lemma references_broken:
  "get_references config_py dec_float dec_int broken_dir =
     Inl (ValueError ''Could not parse molform in data/reference/broken.jdx'')"
proof -
  have "from_jdx config_py dec_float dec_int ''data/reference/broken.jdx'' [''##TITLE=Water''] =
     Inl (ValueError ''Could not parse molform in data/reference/broken.jdx'')"
    by code_simp
  then show ?thesis by (simp add: get_references_def broken_dir_def)
qed

lemma baseline_of_sample:
  assumes "baseline_correction_fraction cfg = 20 / 100" and "baseline_correction_minpoints cfg = 50"
  shows "correct_linear_baseline cfg csv_spectrum = Inr corrected_sample"
  using assms
  by (simp add: correct_linear_baseline_def convert_to_absorbance_def get_y_absorbance_def
        csv_spectrum_def corrected_sample_def new_spectrum_def upper_strip_ABSORBANCE py_trunc_def
        slice_to_def slice_from_def fmean_def fsum_def fsub_def subtract_line_def Let_def
        del: One_nat_def)

lemma baseline_of_flat:
  assumes "baseline_correction_fraction cfg = 20 / 100" and "baseline_correction_minpoints cfg = 50"
  shows "correct_linear_baseline cfg flat_spectrum = Inr flat_corrected"
  using assms
  by (simp add: correct_linear_baseline_def convert_to_absorbance_def get_y_absorbance_def
        flat_spectrum_def flat_corrected_def new_spectrum_def upper_strip_ABSORBANCE py_trunc_def
        slice_to_def slice_from_def fmean_def fsum_def fsub_def finf_def subtract_line_def
        Let_def del: One_nat_def)

lemma corrected_absorbance: "get_y_absorbance corrected_sample = Inr [Fin (- 1 / 2), Fin (1 / 2)]"
  by (simp add: get_y_absorbance_def corrected_sample_def csv_spectrum_def new_spectrum_def
        upper_strip_ABSORBANCE)

lemma corrected_grid: "x_data corrected_sample = [1, 2]"
  by (simp add: corrected_sample_def csv_spectrum_def)

lemma flat_absorbance: "get_y_absorbance flat_corrected = Inr [NaN, NaN]"
  by (simp add: get_y_absorbance_def flat_corrected_def flat_spectrum_def new_spectrum_def
        upper_strip_ABSORBANCE)

lemma flat_grid: "x_data flat_corrected = [1, 1]"
  by (simp add: flat_corrected_def flat_spectrum_def)

lemma config_py_fields:
  "baseline_correction_use config_py" "ref_multiplier config_py = None"
  "clamp_negative_multipliers config_py" "selected_ref_names config_py = None"
  "baseline_correction_fraction config_py = 20 / 100"
  "baseline_correction_minpoints config_py = 50"
  by (simp_all add: config_py_def)

lemma solve_run:
  "analyze_spectrum config_py dec_float dec_int lstsq_stub reference_dir [csv_spectrum] = Inr [solve_fit]"
proof -
  have b: "correct_linear_baseline config_py csv_spectrum = Inr corrected_sample"
    by (rule baseline_of_sample) (simp_all add: config_py_fields)
  have s: "solve_multipliers config_py lstsq_stub [water_spectrum] corrected_sample =
      Inr ([Fin 0], Some (Fin 0))"
    by (simp add: solve_multipliers_def corrected_grid water_on_grid corrected_absorbance
          lstsq_stub_def config_py_fields clip0_def fmaximum_def matvec_def np_sub_def
          sum_sq_def fmean_def fsum_def fsub_def Let_def)
  have a: "analyze_sample config_py lstsq_stub [water_spectrum] csv_spectrum = Inr solve_fit"
    by (simp add: analyze_sample_def config_py_fields b s corrected_absorbance corrected_grid
          water_on_grid add_inplace_def solve_fit_def sort_desc_def)
  show ?thesis
    by (simp add: analyze_spectrum_def references_loaded check_multipliers_def list_truthy_def
          select_refs_def a config_py_fields)
qed

lemma nan_run:
  "analyze_spectrum config_py dec_float dec_int lstsq_stub reference_dir [flat_spectrum] = Inr [nan_fit]"
proof -
  have b: "correct_linear_baseline config_py flat_spectrum = Inr flat_corrected"
    by (rule baseline_of_flat) (simp_all add: config_py_fields)
  have s: "solve_multipliers config_py lstsq_stub [water_spectrum] flat_corrected =
      Inr ([NaN], Some NaN)"
    by (simp add: solve_multipliers_def flat_grid water_on_flat_grid flat_absorbance
          lstsq_stub_def config_py_fields clip0_def fmaximum_def matvec_def np_sub_def
          sum_sq_def fmean_def fsum_def fsub_def Let_def)
  have a: "analyze_sample config_py lstsq_stub [water_spectrum] flat_spectrum = Inr nan_fit"
    by (simp add: analyze_sample_def config_py_fields b s flat_absorbance flat_grid
          water_on_flat_grid add_inplace_def nan_fit_def sort_desc_def)
  show ?thesis
    by (simp add: analyze_spectrum_def references_loaded check_multipliers_def list_truthy_def
          select_refs_def a config_py_fields)
qed

lemma manual_run:
  "analyze_spectrum negative_manual_config dec_float dec_int lstsq_stub reference_dir [csv_spectrum] =
     Inr [manual_fit]"
proof -
  have c: "baseline_correction_use negative_manual_config"
    "ref_multiplier negative_manual_config = Some [- 2]"
    "selected_ref_names negative_manual_config = Some [''H2O'']"
    by (simp_all add: negative_manual_config_def config_py_def)
  have r: "get_references negative_manual_config dec_float dec_int reference_dir = Inr [water_spectrum]"
    using get_references_required [of negative_manual_config config_py] references_loaded
    by (simp add: negative_manual_config_def)
  have b: "correct_linear_baseline negative_manual_config csv_spectrum = Inr corrected_sample"
    by (rule baseline_of_sample) (simp_all add: negative_manual_config_def config_py_def)
  have sel: "select_refs negative_manual_config [water_spectrum] = [water_spectrum]"
    by (simp add: select_refs_def list_truthy_def c water_spectrum_def)
  have a: "analyze_sample negative_manual_config lstsq_stub [water_spectrum] csv_spectrum = Inr manual_fit"
    by (simp add: analyze_sample_def c b corrected_absorbance corrected_grid
          water_on_grid add_inplace_def manual_fit_def sort_desc_def)
  show ?thesis
    by (simp add: analyze_spectrum_def r sel a check_multipliers_def list_truthy_def c)
qed

text \<open>
  Claim C6 at two runs with the shipped settings (clipping on) and a solver that answers
  \<open>-2\<close>: in solve mode the fit holds the multiplier 0, with the manual multiplier \<open>-2\<close>
  the fit holds \<open>-2\<close>.
\<close>

theorem clamping_in_solve_mode_only_witness:
  "analyze_spectrum config_py dec_float dec_int lstsq_stub reference_dir [csv_spectrum] = Inr [solve_fit] \<and>
   ref_multiplier config_py = None \<and> clamp_negative_multipliers config_py \<and>
   lstsq_stub [[Fin (1 / 10), Fin (1 / 5)]] [Fin (- 1 / 2), Fin (1 / 2)] = Inr ([Fin (- 2)], []) \<and>
   fit_multiplier solve_fit = [Fin 0] \<and>
   list_all (\<lambda>v. fle (Fin 0) v) (fit_multiplier solve_fit) \<and>
   list_all (\<lambda>p. fle (Fin 0) (snd p)) (fit_pairs solve_fit) \<and>
   analyze_spectrum negative_manual_config dec_float dec_int lstsq_stub reference_dir [csv_spectrum] =
     Inr [manual_fit] \<and>
   ref_multiplier negative_manual_config = Some [- 2] \<and>
   clamp_negative_multipliers negative_manual_config \<and>
   fit_multiplier manual_fit = [Fin (- 2)] \<and> fit_r2 manual_fit = None"
proof -
  have c: "ref_multiplier config_py = None" "clamp_negative_multipliers config_py"
    "ref_multiplier negative_manual_config = Some [- 2]"
    "clamp_negative_multipliers negative_manual_config"
    by (simp_all add: config_py_def negative_manual_config_def)
  have l: "lstsq_stub [[Fin (1 / 10), Fin (1 / 5)]] [Fin (- 1 / 2), Fin (1 / 2)] = Inr ([Fin (- 2)], [])"
    by (simp add: lstsq_stub_def)
  have m: "fit_multiplier solve_fit = [Fin 0]" "fit_pairs solve_fit = [(water_spectrum, Fin 0)]"
    by (simp_all add: solve_fit_def)
  have z: "fle (Fin 0) (Fin 0)"
    by (simp add: fle_def)
  from clamping_in_solve_mode_only [OF solve_run, of solve_fit] c m
  have p: "\<forall>v \<in> set (fit_multiplier solve_fit). v = NaN \<or> fle (Fin 0) v"
    by simp
  with m z have p1: "list_all (\<lambda>v. fle (Fin 0) v) (fit_multiplier solve_fit)"
    "list_all (\<lambda>p. fle (Fin 0) (snd p)) (fit_pairs solve_fit)"
    by simp_all
  from clamping_in_solve_mode_only [OF manual_run, of manual_fit] c
  have q: "fit_multiplier manual_fit = [Fin (- 2)]" "fit_r2 manual_fit = None"
    by simp_all
  from solve_run manual_run c l m p1 q show ?thesis by simp
qed

text \<open>
  Claim C6 as it is written fails. The tabular file with the rows \<^verbatim>\<open>1.0,0.5\<close> and
  \<^verbatim>\<open>1.0,1.5\<close> loads; its first and last abscissa are equal, so the baseline correction
  divides 0 by 0 and leaves NaN in every value; a solver that answers NaN for such a
  right-hand side gives the multiplier NaN, which the clipping keeps, and NaN is not
  greater than or equal to 0.
\<close>

theorem clamped_multiplier_can_be_nan:
  "from_csv dec_float ''data/sample/flat.csv'' None None 1 csv_flat = Inr flat_spectrum \<and>
   ref_multiplier config_py = None \<and> clamp_negative_multipliers config_py \<and>
   correct_linear_baseline config_py flat_spectrum = Inr flat_corrected \<and>
   y_data flat_corrected = [NaN, NaN] \<and>
   analyze_spectrum config_py dec_float dec_int lstsq_stub reference_dir [flat_spectrum] = Inr [nan_fit] \<and>
   fit_multiplier nan_fit = [NaN] \<and> \<not> fle (Fin 0) NaN"
proof -
  have l: "from_csv dec_float ''data/sample/flat.csv'' None None 1 csv_flat = Inr flat_spectrum"
    by code_simp
  have b: "correct_linear_baseline config_py flat_spectrum = Inr flat_corrected"
    by (rule baseline_of_flat) (simp_all add: config_py_fields)
  have y: "y_data flat_corrected = [NaN, NaN]" "fit_multiplier nan_fit = [NaN]" "\<not> fle (Fin 0) NaN"
    by (simp_all add: flat_corrected_def nan_fit_def fle_def)
  from l b y nan_run config_py_fields(2,3) show ?thesis by simp
qed

text \<open>
  Claim C3, as the code has it. With a manual multiplier list that is not empty and a name
  list that is missing or of another length, the analysis first loads the references: it
  stops with the loader's exception when that fails, and with the validation error when
  the references load. The result depends neither on the samples nor on the solver.
\<close>

theorem manual_settings_checked_after_loading:
  assumes "ref_multiplier cfg = Some m" and "m \<noteq> []"
    and "selected_ref_names cfg = None \<or>
         (\<exists>ns. selected_ref_names cfg = Some ns \<and> length ns \<noteq> length m)"
  shows "analyze_spectrum cfg pf pint lstsq ref_files samples =
           (case get_references cfg pf pint ref_files of
              Inl e \<Rightarrow> Inl e
            | Inr ref_data \<Rightarrow>
                Inl (if list_truthy (selected_ref_names cfg) then length_error else names_error))"
proof -
  from assms have
    "check_multipliers cfg =
       Inl (if list_truthy (selected_ref_names cfg) then length_error else names_error)"
    by (auto simp: check_multipliers_def list_truthy_def)
  then show ?thesis
    by (simp add: analyze_spectrum_def split: sum.splits)
qed

text \<open>
  Claim C3 at the scenario of the specification (two multipliers, one name) and at two
  multipliers without names, with a reference directory that loads.
\<close>

theorem manual_settings_checked_after_loading_witness:
  "ref_multiplier manual_config = Some [1 / 2, 1 / 2] \<and>
   selected_ref_names manual_config = Some [''H2O''] \<and>
   analyze_spectrum manual_config dec_float dec_int lstsq_stub reference_dir [csv_spectrum] =
     Inl length_error \<and>
   ref_multiplier unnamed_manual_config = Some [1 / 2, 1 / 2] \<and>
   selected_ref_names unnamed_manual_config = None \<and>
   analyze_spectrum unnamed_manual_config dec_float dec_int lstsq_stub reference_dir [csv_spectrum] =
     Inl names_error"
proof -
  have m: "ref_multiplier manual_config = Some [1 / 2, 1 / 2]"
    "selected_ref_names manual_config = Some [''H2O'']"
    "ref_multiplier unnamed_manual_config = Some [1 / 2, 1 / 2]"
    "selected_ref_names unnamed_manual_config = None"
    by (simp_all add: manual_config_def unnamed_manual_config_def config_py_def)
  have ne: "[1 / 2, 1 / 2] \<noteq> ([] :: real list)" by simp
  have d1: "selected_ref_names manual_config = None \<or>
      (\<exists>ns. selected_ref_names manual_config = Some ns \<and> length ns \<noteq> length [1 / 2, 1 / 2 :: real])"
    using m by simp
  have d2: "selected_ref_names unnamed_manual_config = None \<or>
      (\<exists>ns. selected_ref_names unnamed_manual_config = Some ns \<and> length ns \<noteq> length [1 / 2, 1 / 2 :: real])"
    using m by simp
  have r1: "get_references manual_config dec_float dec_int reference_dir = Inr [water_spectrum]"
    using get_references_required [of manual_config config_py] references_loaded
    by (simp add: manual_config_def)
  have r2: "get_references unnamed_manual_config dec_float dec_int reference_dir = Inr [water_spectrum]"
    using get_references_required [of unnamed_manual_config config_py] references_loaded
    by (simp add: unnamed_manual_config_def)
  from manual_settings_checked_after_loading [OF m(1) ne d1, of dec_float dec_int lstsq_stub reference_dir "[csv_spectrum]"]
       manual_settings_checked_after_loading [OF m(3) ne d2, of dec_float dec_int lstsq_stub reference_dir "[csv_spectrum]"]
  show ?thesis using m r1 r2 by (simp add: list_truthy_def)
qed

text \<open>
  Claim C3 as it is written fails: with two multipliers and one name the analysis stops
  with \<^verbatim>\<open>SystemExit\<close> when the reference directory is empty and with the loader's
  \<^verbatim>\<open>ValueError\<close> when a reference file is broken, so the references are loaded before
  the settings are tested; and with an empty list of multipliers and one name the
  analysis runs to its end.
\<close>

theorem references_loaded_before_validation:
  "ref_multiplier manual_config = Some [1 / 2, 1 / 2] \<and>
   selected_ref_names manual_config = Some [''H2O''] \<and>
   analyze_spectrum manual_config dec_float dec_int lstsq_stub [] [csv_spectrum] =
     Inl (SystemExit ''No references available. Please refer to README'') \<and>
   analyze_spectrum manual_config dec_float dec_int lstsq_stub broken_dir [csv_spectrum] =
     Inl (ValueError ''Could not parse molform in data/reference/broken.jdx'') \<and>
   ref_multiplier empty_manual_config = Some [] \<and>
   selected_ref_names empty_manual_config = Some [''H2O''] \<and>
   analyze_spectrum empty_manual_config dec_float dec_int lstsq_stub reference_dir [csv_spectrum] =
     Inr [empty_fit]"
proof -
  have m: "ref_multiplier manual_config = Some [1 / 2, 1 / 2]"
    "selected_ref_names manual_config = Some [''H2O'']"
    "ref_multiplier empty_manual_config = Some []"
    "selected_ref_names empty_manual_config = Some [''H2O'']"
    "baseline_correction_use empty_manual_config"
    by (simp_all add: manual_config_def empty_manual_config_def config_py_def)
  have e1: "analyze_spectrum manual_config dec_float dec_int lstsq_stub [] [csv_spectrum] =
     Inl (SystemExit ''No references available. Please refer to README'')"
    by (simp add: analyze_spectrum_def get_references_def)
  have "get_references manual_config dec_float dec_int broken_dir =
     Inl (ValueError ''Could not parse molform in data/reference/broken.jdx'')"
    using get_references_required [of manual_config config_py] references_broken
    by (simp add: manual_config_def)
  then have e2: "analyze_spectrum manual_config dec_float dec_int lstsq_stub broken_dir [csv_spectrum] =
     Inl (ValueError ''Could not parse molform in data/reference/broken.jdx'')"
    by (simp add: analyze_spectrum_def)
  have r: "get_references empty_manual_config dec_float dec_int reference_dir = Inr [water_spectrum]"
    using get_references_required [of empty_manual_config config_py] references_loaded
    by (simp add: empty_manual_config_def)
  have b: "correct_linear_baseline empty_manual_config csv_spectrum = Inr corrected_sample"
    by (rule baseline_of_sample) (simp_all add: empty_manual_config_def config_py_def)
  have sel: "select_refs empty_manual_config [water_spectrum] = [water_spectrum]"
    by (simp add: select_refs_def list_truthy_def m water_spectrum_def)
  have a: "analyze_sample empty_manual_config lstsq_stub [water_spectrum] csv_spectrum = Inr empty_fit"
    by (simp add: analyze_sample_def m b corrected_absorbance empty_fit_def sort_desc_def)
  have e3: "analyze_spectrum empty_manual_config dec_float dec_int lstsq_stub reference_dir [csv_spectrum] =
     Inr [empty_fit]"
    by (simp add: analyze_spectrum_def r sel a check_multipliers_def list_truthy_def m)
  from m e1 e2 e3 show ?thesis by simp
qed

end
